theory Spec2Isabelle
  imports Main "HOL-Library.Word"
begin

section \<open>The ctypes type language used by the three binding modules\<close>

text \<open>
  The repository consists of three Python modules (\<^verbatim>\<open>dvdcss.py\<close>, \<^verbatim>\<open>dvdread.py\<close>,
  \<^verbatim>\<open>dvdnav.py\<close>) whose top-level code declares ctypes structures, integer constants and
  foreign-function wrappers.  A type expression of the source (\<^verbatim>\<open>ctypes.c_int\<close>,
  \<^verbatim>\<open>ctypes.POINTER(T)\<close>, \<^verbatim>\<open>T * n\<close>, \<^verbatim>\<open>ctypes.CFUNCTYPE(res, args...)\<close>, or the name of a
  \<^verbatim>\<open>Structure\<close>/\<^verbatim>\<open>Union\<close> subclass) is a value of \<open>ctype\<close>.  A class is referred to by
  its qualified Python name, as the class object is in the source: its field list lives in
  the interpreter state, which is what makes the shell-then-patch idiom expressible.
\<close>

datatype ctype =
    c_char | c_ubyte | c_uint8 | c_int8 | c_uint16 | c_int16 | c_int | c_uint
  | c_int32 | c_uint32 | c_int64 | c_uint64 | c_long | c_size_t | c_ssize_t
  | c_time_t | c_void_p
  | POINTER ctype
  | Array ctype nat
  | CFUNCTYPE ctype "ctype list"
  | Class string

text \<open>An entry of a \<^verbatim>\<open>_fields_\<close> list: \<^verbatim>\<open>(name, type)\<close> or \<^verbatim>\<open>(name, type, bits)\<close>.\<close>

datatype field = Field string ctype | BitField string ctype nat

datatype class_kind = Structure | Union

datatype error =
    RuntimeError string
  | OSError string
  | AttributeError string
  | NameError string
  | TypeError string
  | ValueError string
  | ArgumentError nat

fun field_name :: "field \<Rightarrow> string" where
  "field_name (Field n t) = n"
| "field_name (BitField n t b) = n"

fun field_type :: "field \<Rightarrow> ctype" where
  "field_type (Field n t) = t"
| "field_type (BitField n t b) = t"

fun field_bits :: "field \<Rightarrow> nat option" where
  "field_bits (Field n t) = None"
| "field_bits (BitField n t b) = Some b"

text \<open>
  \<^verbatim>\<open>int(s, 16)\<close> on a non-empty string of hexadecimal digits, the only form the source
  uses.  (Python also accepts a sign, a \<^verbatim>\<open>0x\<close> prefix, underscores and surrounding
  whitespace; those forms are outside this fragment and are reported like any other
  malformed literal.)
\<close>

definition hex_digit :: "char \<Rightarrow> nat option" where
  "hex_digit c =
     (let k = of_char c :: nat in
      if 48 \<le> k \<and> k \<le> 57 then Some (k - 48)
      else if 97 \<le> k \<and> k \<le> 102 then Some (k - 87)
      else if 65 \<le> k \<and> k \<le> 70 then Some (k - 55)
      else None)"

fun int_base16_acc :: "nat \<Rightarrow> string \<Rightarrow> error + nat" where
  "int_base16_acc acc [] = Inr acc"
| "int_base16_acc acc (c # cs) =
     (case hex_digit c of
        None \<Rightarrow> Inl (ValueError ''invalid literal for int() with base 16'')
      | Some d \<Rightarrow> int_base16_acc (16 * acc + d) cs)"

definition int_base16 :: "string \<Rightarrow> error + nat" where
  "int_base16 s =
     (if s = [] then Inl (ValueError ''invalid literal for int() with base 16'')
      else int_base16_acc 0 s)"

section \<open>Sizes and alignments (LP64 Linux, the platform the modules name)\<close>

text \<open>
  Size in bytes of the simple C data types.  ctypes takes these from the C compiler of the
  host; the values below are those of x86-64 Linux, the platform whose headers the source
  cites (\<^verbatim>\<open>x86_64-linux-gnu/bits/types/struct_iovec.h\<close>).  On that platform the alignment of
  a simple type equals its size.  Pointers and function pointers are 8 bytes.
\<close>

fun simple_size :: "ctype \<Rightarrow> nat option" where
  "simple_size c_char = Some 1"
| "simple_size c_ubyte = Some 1"
| "simple_size c_uint8 = Some 1"
| "simple_size c_int8 = Some 1"
| "simple_size c_uint16 = Some 2"
| "simple_size c_int16 = Some 2"
| "simple_size c_int = Some 4"
| "simple_size c_uint = Some 4"
| "simple_size c_int32 = Some 4"
| "simple_size c_uint32 = Some 4"
| "simple_size c_int64 = Some 8"
| "simple_size c_uint64 = Some 8"
| "simple_size c_long = Some 8"
| "simple_size c_size_t = Some 8"
| "simple_size c_ssize_t = Some 8"
| "simple_size c_time_t = Some 8"
| "simple_size c_void_p = Some 8"
| "simple_size (POINTER t) = None"
| "simple_size (Array t n) = None"
| "simple_size (CFUNCTYPE r ts) = None"
| "simple_size (Class n) = None"

text \<open>The types ctypes accepts as the storage unit of a bit field: the integer types.\<close>

fun bitfield_capable :: "ctype \<Rightarrow> bool" where
  "bitfield_capable c_char = False"
| "bitfield_capable c_void_p = False"
| "bitfield_capable (POINTER t) = False"
| "bitfield_capable (Array t n) = False"
| "bitfield_capable (CFUNCTYPE r ts) = False"
| "bitfield_capable (Class n) = False"
| "bitfield_capable t = True"

section \<open>Interpreter state: classes, libraries, function objects\<close>

text \<open>
  What ctypes keeps for a \<^verbatim>\<open>Structure\<close>/\<^verbatim>\<open>Union\<close> subclass: the Python list bound to
  \<^verbatim>\<open>_fields_\<close> (absent for a shell), the "final" flag, and the layout computed when
  \<^verbatim>\<open>_fields_\<close> was assigned: size, alignment, and one descriptor per field
  (name, byte offset, bit offset, bit width; width 0 for an ordinary field).
\<close>

type_synonym descr = "string \<times> nat \<times> nat \<times> nat"

record stginfo =
  stg_kind :: class_kind
  stg_fields :: "field list option"
  stg_final :: bool
  stg_size :: nat
  stg_align :: nat
  stg_descr :: "descr list"

type_synonym classes = "(string \<times> stginfo) list"

text \<open>
  A foreign function object as \<^verbatim>\<open>lib.symbol\<close> returns it: \<^verbatim>\<open>restype\<close> defaults to
  \<^verbatim>\<open>c_int\<close>, \<^verbatim>\<open>argtypes\<close> to \<^verbatim>\<open>None\<close>.  Any other attribute name assigned on the object
  goes to its instance dictionary and has no effect on calls.
\<close>

datatype attr_value = TypeVal ctype | NoneVal | TupleVal "ctype list"

record funcptr =
  fn_symbol :: string
  fn_restype :: "ctype option"
  fn_argtypes :: "ctype list option"
  fn_dict :: "(string \<times> attr_value) list"

text \<open>
  The host a module is imported on: \<^verbatim>\<open>os.name\<close>, \<^verbatim>\<open>os.path.expandvars\<close>, whether the
  dynamic loader finds a library, and whether a loaded library exports a symbol.
\<close>

record host =
  os_name :: string
  expandvars :: "string \<Rightarrow> string"
  loadable :: "string \<Rightarrow> bool"
  exports :: "string \<Rightarrow> string \<Rightarrow> bool"

text \<open>
  The state built by module-level code: declared classes (latest first), loaded libraries
  (module variable, file), function objects (module variable, object), and the log of
  symbol lookups made on loaded libraries (variable, symbol), latest first.
\<close>

record pystate =
  py_classes :: classes
  py_libs :: "(string \<times> string) list"
  py_funcs :: "(string \<times> funcptr) list"
  py_lookups :: "(string \<times> string) list"

definition empty_state :: pystate where
  "empty_state = \<lparr>py_classes = [], py_libs = [], py_funcs = [], py_lookups = []\<rparr>"

text \<open>A failed statement reports the exception together with the state reached.\<close>

type_synonym 'a result = "(error \<times> pystate) + 'a"

section \<open>Layout of a field list\<close>

text \<open>
  Name resolution of a type expression: every class named in it (also behind a pointer or
  inside a function-pointer signature) must be bound when the expression is evaluated,
  or Python raises \<^verbatim>\<open>NameError\<close>.
\<close>

fun class_refs :: "ctype \<Rightarrow> string list" where
  "class_refs (POINTER t) = class_refs t"
| "class_refs (Array t n) = class_refs t"
| "class_refs (CFUNCTYPE r ts) = class_refs r @ concat (map class_refs ts)"
| "class_refs (Class n) = [n]"
| "class_refs t = []"

definition fields_refs :: "field list \<Rightarrow> string list" where
  "fields_refs fs = concat (map (\<lambda>f. class_refs (field_type f)) fs)"

fun first_unbound :: "classes \<Rightarrow> string list \<Rightarrow> string option" where
  "first_unbound cs [] = None"
| "first_unbound cs (n # ns) =
     (case map_of cs n of None \<Rightarrow> Some n | Some i \<Rightarrow> first_unbound cs ns)"

text \<open>
  Size and alignment of a type whose names are bound.  A class contributes the size and
  alignment stored when its \<^verbatim>\<open>_fields_\<close> was assigned (0 and 0 for a shell).
\<close>

fun size_align :: "classes \<Rightarrow> ctype \<Rightarrow> nat \<times> nat" where
  "size_align cs (POINTER t) = (8, 8)"
| "size_align cs (CFUNCTYPE r ts) = (8, 8)"
| "size_align cs (Array t n) = (case size_align cs t of (s, a) \<Rightarrow> (n * s, a))"
| "size_align cs (Class n) =
     (case map_of cs n of None \<Rightarrow> (0, 0) | Some i \<Rightarrow> (stg_size i, stg_align i))"
| "size_align cs t = (case simple_size t of None \<Rightarrow> (0, 0) | Some s \<Rightarrow> (s, s))"

text \<open>
  The running state of ctypes' field loop (\<^verbatim>\<open>PyCField_FromDesc\<close> and its caller):
  width in bits of the open bit-field storage unit (0: none), bits used in it, size and
  offset so far, alignment of the last field, the largest alignment, the largest member
  size (for a union), and the descriptors produced, latest first.
\<close>

record layout_st =
  l_field_size :: nat
  l_bitofs :: nat
  l_size :: nat
  l_offset :: nat
  l_align :: nat
  l_total_align :: nat
  l_union_size :: nat
  l_descr :: "descr list"

definition layout_init :: layout_st where
  "layout_init = \<lparr>l_field_size = 0, l_bitofs = 0, l_size = 0, l_offset = 0, l_align = 0,
                  l_total_align = 1, l_union_size = 0, l_descr = []\<rparr>"

datatype fieldtype = NO_BITFIELD | NEW_BITFIELD | CONT_BITFIELD | EXPAND_BITFIELD

text \<open>
  How the next field relates to the open storage unit (the non-Windows rule): it continues
  the unit if its type is no wider than the unit and its bits still fit; it widens the
  unit if its type is at least as wide and the bits fit the wider unit; otherwise a bit
  field opens a new unit.  A field never straddles a unit.
\<close>

definition classify :: "nat \<Rightarrow> nat \<Rightarrow> nat \<Rightarrow> nat \<Rightarrow> fieldtype" where
  "classify tsize bitsize field_size bitofs =
     (if bitsize \<noteq> 0 \<and> field_size \<noteq> 0 \<and> tsize * 8 \<le> field_size
         \<and> bitofs + bitsize \<le> field_size then CONT_BITFIELD
      else if bitsize \<noteq> 0 \<and> field_size \<noteq> 0 \<and> tsize * 8 \<ge> field_size
         \<and> bitofs + bitsize \<le> tsize * 8 then EXPAND_BITFIELD
      else if bitsize \<noteq> 0 then NEW_BITFIELD
      else NO_BITFIELD)"

definition pad_to :: "nat \<Rightarrow> nat \<Rightarrow> nat" where
  "pad_to align offset =
     (if align \<noteq> 0 \<and> offset mod align \<noteq> 0 then align - offset mod align else 0)"

text \<open>One field of known type size, alignment and bit width (0: not a bit field).\<close>

definition field_from_desc :: "string \<Rightarrow> nat \<Rightarrow> nat \<Rightarrow> nat \<Rightarrow> layout_st \<Rightarrow> layout_st" where
  "field_from_desc name tsize talign bitsize s =
     (case classify tsize bitsize (l_field_size s) (l_bitofs s) of
        NO_BITFIELD \<Rightarrow>
          (let delta = pad_to talign (l_offset s); off = l_offset s + delta in
           s\<lparr>l_field_size := 0, l_bitofs := 0,
             l_size := l_size s + delta + tsize, l_offset := off + tsize, l_align := talign,
             l_descr := (name, off, 0, 0) # l_descr s\<rparr>)
      | NEW_BITFIELD \<Rightarrow>
          (let delta = pad_to talign (l_offset s); off = l_offset s + delta in
           s\<lparr>l_field_size := tsize * 8, l_bitofs := bitsize,
             l_size := l_size s + delta + tsize, l_offset := off + tsize, l_align := talign,
             l_descr := (name, off, 0, bitsize) # l_descr s\<rparr>)
      | EXPAND_BITFIELD \<Rightarrow>
          (let grow = tsize - l_field_size s div 8; off = l_offset s + grow in
           s\<lparr>l_field_size := tsize * 8, l_bitofs := l_bitofs s + bitsize,
             l_size := l_size s + grow, l_offset := off,
             l_descr := (name, off - tsize, l_bitofs s, bitsize) # l_descr s\<rparr>)
      | CONT_BITFIELD \<Rightarrow>
          s\<lparr>l_bitofs := l_bitofs s + bitsize,
            l_descr := (name, l_offset s - tsize, l_bitofs s, bitsize) # l_descr s\<rparr>)"

text \<open>
  One entry of \<^verbatim>\<open>_fields_\<close>.  A bit width is rejected unless the type is an integer type
  and the width lies between 1 and the width of the type.  In a union every member starts
  at offset 0 and the size is the largest member size.
\<close>

definition bit_width :: "field \<Rightarrow> nat \<Rightarrow> error + nat" where
  "bit_width f tsize =
     (case field_bits f of
        None \<Rightarrow> Inr 0
      | Some b \<Rightarrow>
          if \<not> bitfield_capable (field_type f) then Inl (TypeError ''bit fields not allowed'')
          else if b = 0 \<or> b > tsize * 8 then Inl (ValueError ''number of bits invalid for bit field'')
          else Inr b)"

definition add_field :: "classes \<Rightarrow> class_kind \<Rightarrow> field \<Rightarrow> layout_st \<Rightarrow> error + layout_st" where
  "add_field cs k f s =
     (case size_align cs (field_type f) of (tsize, talign) \<Rightarrow>
        (case bit_width f tsize of
           Inl e \<Rightarrow> Inl e
         | Inr bitsize \<Rightarrow>
            (case k of
               Structure \<Rightarrow>
                 (let s' = field_from_desc (field_name f) tsize talign bitsize s in
                  Inr (s'\<lparr>l_total_align := max (l_align s') (l_total_align s')\<rparr>))
             | Union \<Rightarrow>
                 (let s' = field_from_desc (field_name f) tsize talign bitsize
                             (s\<lparr>l_size := 0, l_offset := 0, l_align := 0\<rparr>) in
                  Inr (s'\<lparr>l_union_size := max (l_size s') (l_union_size s'),
                          l_total_align := max (l_align s') (l_total_align s')\<rparr>)))))"

fun add_fields :: "classes \<Rightarrow> class_kind \<Rightarrow> field list \<Rightarrow> layout_st \<Rightarrow> error + layout_st" where
  "add_fields cs k [] s = Inr s"
| "add_fields cs k (f # fs) s =
     (case add_field cs k f s of Inl e \<Rightarrow> Inl e | Inr s' \<Rightarrow> add_fields cs k fs s')"

text \<open>The layout of a whole field list: size rounded up to the alignment, descriptors in
  declaration order.\<close>

definition layout :: "classes \<Rightarrow> class_kind \<Rightarrow> field list \<Rightarrow> error + (nat \<times> nat \<times> descr list)" where
  "layout cs k fs =
     (case add_fields cs k fs layout_init of
        Inl e \<Rightarrow> Inl e
      | Inr s \<Rightarrow>
          (let sz = (case k of Structure \<Rightarrow> l_size s | Union \<Rightarrow> l_union_size s);
               al = l_total_align s
           in Inr (((sz + al - 1) div al) * al, al, rev (l_descr s))))"

section \<open>Module-level statements and their execution\<close>

text \<open>
  The statement forms the three modules use at top level (constants and type aliases are
  pure and appear below as plain definitions):
  \<^item> \<^verbatim>\<open>var = ctypes.CDLL(file)\<close>;
  \<^item> a \<^verbatim>\<open>class\<close> statement deriving from \<^verbatim>\<open>ctypes.Structure\<close> or \<^verbatim>\<open>ctypes.Union\<close>, with
    or without a \<^verbatim>\<open>_fields_\<close> list in its body;
  \<^item> \<^verbatim>\<open>C._fields_ = [...]\<close>;
  \<^item> \<^verbatim>\<open>C._fields_.append(entry)\<close>;
  \<^item> \<^verbatim>\<open>f = lib.symbol\<close>;
  \<^item> \<^verbatim>\<open>f.attr = value\<close>;
  \<^item> \<^verbatim>\<open>raise RuntimeError(msg)\<close>.
\<close>

datatype stmt =
    LoadLibrary string string
  | ClassStmt string class_kind "field list option"
  | AssignFields string "field list"
  | AppendField string field
  | BindFunction string string string
  | SetAttr string string attr_value
  | Raise error

fun upd :: "string \<Rightarrow> ('a \<Rightarrow> 'a) \<Rightarrow> (string \<times> 'a) list \<Rightarrow> (string \<times> 'a) list" where
  "upd n f [] = []"
| "upd n f ((m, i) # cs) = (if m = n then (m, f i) # cs else (m, i) # upd n f cs)"

text \<open>The classes a field list embeds by value; ctypes marks each of them final.\<close>

fun by_value_classes :: "field list \<Rightarrow> string list" where
  "by_value_classes [] = []"
| "by_value_classes (Field n (Class c) # fs) = c # by_value_classes fs"
| "by_value_classes (f # fs) = by_value_classes fs"

definition mark_final :: "string list \<Rightarrow> classes \<Rightarrow> classes" where
  "mark_final ns cs = fold (\<lambda>n. upd n (\<lambda>i. i\<lparr>stg_final := True\<rparr>)) ns cs"

definition shell :: "class_kind \<Rightarrow> stginfo" where
  "shell k = \<lparr>stg_kind = k, stg_fields = None, stg_final = False, stg_size = 0,
              stg_align = 0, stg_descr = []\<rparr>"

definition complete :: "class_kind \<Rightarrow> field list \<Rightarrow> nat \<times> nat \<times> descr list \<Rightarrow> stginfo" where
  "complete k fs l =
     (case l of (sz, al, ds) \<Rightarrow>
        \<lparr>stg_kind = k, stg_fields = Some fs, stg_final = True, stg_size = sz,
         stg_align = al, stg_descr = ds\<rparr>)"

text \<open>\<^verbatim>\<open>class C(ctypes.Structure): ...\<close> The body is evaluated before \<open>C\<close> is bound.\<close>

definition class_stmt :: "string \<Rightarrow> class_kind \<Rightarrow> field list option \<Rightarrow> pystate \<Rightarrow> pystate result" where
  "class_stmt n k body st =
     (case body of
        None \<Rightarrow> Inr (st\<lparr>py_classes := (n, shell k) # py_classes st\<rparr>)
      | Some fs \<Rightarrow>
          (case first_unbound (py_classes st) (fields_refs fs) of
             Some m \<Rightarrow> Inl (NameError m, st)
           | None \<Rightarrow>
               (case layout (py_classes st) k fs of
                  Inl e \<Rightarrow> Inl (e, st)
                | Inr l \<Rightarrow>
                    Inr (st\<lparr>py_classes :=
                           (n, complete k fs l) # mark_final (by_value_classes fs) (py_classes st)\<rparr>))))"

text \<open>
  \<^verbatim>\<open>C._fields_ = fs\<close>: the right-hand side is evaluated, then \<open>C\<close>; ctypes refuses the
  assignment on a final class, otherwise computes the layout once and makes the class
  final.
\<close>

definition assign_fields :: "string \<Rightarrow> field list \<Rightarrow> pystate \<Rightarrow> pystate result" where
  "assign_fields n fs st =
     (case first_unbound (py_classes st) (fields_refs fs) of
        Some m \<Rightarrow> Inl (NameError m, st)
      | None \<Rightarrow>
          (case map_of (py_classes st) n of
             None \<Rightarrow> Inl (NameError n, st)
           | Some i \<Rightarrow>
               if stg_final i then Inl (AttributeError ''_fields_ is final'', st)
               else
                 (case layout (py_classes st) (stg_kind i) fs of
                    Inl e \<Rightarrow> Inl (e, st)
                  | Inr l \<Rightarrow>
                      Inr (st\<lparr>py_classes :=
                             upd n (\<lambda>_. complete (stg_kind i) fs l)
                               (mark_final (by_value_classes fs) (py_classes st))\<rparr>))))"

text \<open>
  \<^verbatim>\<open>C._fields_.append(entry)\<close> mutates the Python list only: the layout computed at
  assignment stays as it is and no descriptor is created for the entry.
\<close>

definition append_field :: "string \<Rightarrow> field \<Rightarrow> pystate \<Rightarrow> pystate result" where
  "append_field n f st =
     (case map_of (py_classes st) n of
        None \<Rightarrow> Inl (NameError n, st)
      | Some i \<Rightarrow>
          (case stg_fields i of
             None \<Rightarrow> Inl (AttributeError ''_fields_'', st)
           | Some fs \<Rightarrow>
               (case first_unbound (py_classes st) (class_refs (field_type f)) of
                  Some m \<Rightarrow> Inl (NameError m, st)
                | None \<Rightarrow>
                    Inr (st\<lparr>py_classes :=
                           upd n (\<lambda>j. j\<lparr>stg_fields := Some (fs @ [f])\<rparr>) (py_classes st)\<rparr>))))"

definition load_library :: "host \<Rightarrow> string \<Rightarrow> string \<Rightarrow> pystate \<Rightarrow> pystate result" where
  "load_library h v file st =
     (if loadable h file then Inr (st\<lparr>py_libs := (v, file) # py_libs st\<rparr>)
      else Inl (OSError file, st))"

text \<open>\<^verbatim>\<open>f = lib.symbol\<close>: a symbol lookup on the loaded library.\<close>

definition bind_function :: "host \<Rightarrow> string \<Rightarrow> string \<Rightarrow> string \<Rightarrow> pystate \<Rightarrow> pystate result" where
  "bind_function h v lib symb st =
     (case map_of (py_libs st) lib of
        None \<Rightarrow> Inl (NameError lib, st)
      | Some file \<Rightarrow>
          (let st' = st\<lparr>py_lookups := (lib, symb) # py_lookups st\<rparr> in
           if exports h file symb then
             Inr (st'\<lparr>py_funcs :=
                    (v, \<lparr>fn_symbol = symb, fn_restype = Some c_int, fn_argtypes = None,
                         fn_dict = []\<rparr>) # py_funcs st'\<rparr>)
           else Inl (AttributeError symb, st')))"

fun value_refs :: "attr_value \<Rightarrow> string list" where
  "value_refs (TypeVal t) = class_refs t"
| "value_refs NoneVal = []"
| "value_refs (TupleVal ts) = concat (map class_refs ts)"

text \<open>
  \<^verbatim>\<open>f.attr = value\<close>.  Only the names \<^verbatim>\<open>restype\<close> and \<^verbatim>\<open>argtypes\<close> are interpreted by
  ctypes; any other name is stored in the instance dictionary.
\<close>

definition set_attr_fn :: "string \<Rightarrow> attr_value \<Rightarrow> funcptr \<Rightarrow> error + funcptr" where
  "set_attr_fn a v f =
     (if a = ''restype'' then
        (case v of
           TypeVal t \<Rightarrow> Inr (f\<lparr>fn_restype := Some t\<rparr>)
         | NoneVal \<Rightarrow> Inr (f\<lparr>fn_restype := None\<rparr>)
         | TupleVal ts \<Rightarrow> Inl (TypeError ''restype must be a type, a callable, or None''))
      else if a = ''argtypes'' then
        (case v of
           TupleVal ts \<Rightarrow> Inr (f\<lparr>fn_argtypes := Some ts\<rparr>)
         | NoneVal \<Rightarrow> Inr (f\<lparr>fn_argtypes := None\<rparr>)
         | TypeVal t \<Rightarrow> Inl (TypeError ''argtypes must be a sequence of types''))
      else Inr (f\<lparr>fn_dict := (a, v) # fn_dict f\<rparr>))"

definition set_attr :: "string \<Rightarrow> string \<Rightarrow> attr_value \<Rightarrow> pystate \<Rightarrow> pystate result" where
  "set_attr v a val st =
     (case first_unbound (py_classes st) (value_refs val) of
        Some m \<Rightarrow> Inl (NameError m, st)
      | None \<Rightarrow>
          (case map_of (py_funcs st) v of
             None \<Rightarrow> Inl (NameError v, st)
           | Some f \<Rightarrow>
               (case set_attr_fn a val f of
                  Inl e \<Rightarrow> Inl (e, st)
                | Inr f' \<Rightarrow> Inr (st\<lparr>py_funcs := upd v (\<lambda>_. f') (py_funcs st)\<rparr>))))"

fun exec :: "host \<Rightarrow> stmt \<Rightarrow> pystate \<Rightarrow> pystate result" where
  "exec h (LoadLibrary v file) st = load_library h v file st"
| "exec h (ClassStmt n k body) st = class_stmt n k body st"
| "exec h (AssignFields n fs) st = assign_fields n fs st"
| "exec h (AppendField n f) st = append_field n f st"
| "exec h (BindFunction v lib symb) st = bind_function h v lib symb st"
| "exec h (SetAttr v a val) st = set_attr v a val st"
| "exec h (Raise e) st = Inl (e, st)"

text \<open>Statements run in order; the first exception ends the import.\<close>

fun exec_all :: "host \<Rightarrow> stmt list \<Rightarrow> pystate \<Rightarrow> pystate result" where
  "exec_all h [] st = Inr st"
| "exec_all h (s # ss) st =
     (case exec h s st of Inl e \<Rightarrow> Inl e | Inr st' \<Rightarrow> exec_all h ss st')"

section \<open>dvdcss.py: bindings of libdvdcss\<close>

definition POSIX_DVDCSS_LIB :: string where
  "POSIX_DVDCSS_LIB = ''libdvdcss.so.2''"

definition PATH_MAX :: nat where
  "PATH_MAX = 4096"

definition IOVec :: ctype where
  "IOVec = Class ''_IOVec''"

definition IOVec_fields :: "field list" where
  "IOVec_fields =
    [Field ''iov_base'' c_void_p,
     Field ''iov_len'' c_size_t]"

definition DVD_KEY_SIZE :: nat where
  "DVD_KEY_SIZE = 5"

definition DVD_KEY :: ctype where
  "DVD_KEY = Array c_uint8 DVD_KEY_SIZE"

definition DVDTitle :: ctype where
  "DVDTitle = Class ''_DVDTitle''"

definition DVDTitle_fields :: "field list" where
  "DVDTitle_fields =
    [Field ''i_startlb'' c_int,
     Field ''p_key'' DVD_KEY,
     Field ''p_next'' (POINTER DVDTitle)]"

definition CSS :: ctype where
  "CSS = Class ''_CSS''"

definition CSS_fields :: "field list" where
  "CSS_fields =
    [Field ''i_agid'' c_int,
     Field ''p_bus_key'' DVD_KEY,
     Field ''p_disc_key'' DVD_KEY,
     Field ''p_title_key'' DVD_KEY]"

definition DVDCSSMethod :: ctype where
  "DVDCSSMethod = c_int"

definition DVDCSSS :: ctype where
  "DVDCSSS = Class ''_DVDCSSS''"

definition DVDCSST :: ctype where
  "DVDCSST = POINTER DVDCSSS"

definition DVDCSSStreamCB :: ctype where
  "DVDCSSStreamCB = Class ''_DVDCSSStreamCB''"

definition DVDCSSStreamCB_fields :: "field list" where
  "DVDCSSStreamCB_fields =
    [Field ''pf_seek'' (CFUNCTYPE (POINTER c_int) [c_void_p, c_uint64]),
     Field ''pf_read'' (CFUNCTYPE (POINTER c_int) [c_void_p, c_void_p, c_int]),
     Field ''pf_readv'' (CFUNCTYPE (POINTER c_int) [c_void_p, c_void_p, c_int])]"

definition DVDCSSS_fields :: "field list" where
  "DVDCSSS_fields =
    [Field ''psz_device'' (POINTER c_char),
     Field ''i_fd'' c_int,
     Field ''i_pos'' c_int,
     Field ''pf_seek'' (CFUNCTYPE (POINTER c_int) [DVDCSST, c_int]),
     Field ''pf_read'' (CFUNCTYPE (POINTER c_int) [DVDCSST, c_void_p, c_int]),
     Field ''pf_readv'' (CFUNCTYPE (POINTER c_int) [DVDCSST, POINTER IOVec, c_int]),
     Field ''i_method'' DVDCSSMethod,
     Field ''css'' CSS,
     Field ''b_ioctls'' c_int,
     Field ''b_scrambled'' c_int,
     Field ''p_titles'' (POINTER DVDTitle),
     Field ''psz_cachefile'' (Array c_char PATH_MAX),
     Field ''psz_block'' (POINTER c_char),
     Field ''psz_error'' (POINTER c_char),
     Field ''b_errors'' c_int,
     Field ''b_debug'' c_int]"

definition dvdcss_part1 :: "host \<Rightarrow> stmt list" where
  "dvdcss_part1 h =
     (if os_name h = ''posix'' then [LoadLibrary ''_libdvdcss'' POSIX_DVDCSS_LIB]
      else if os_name h = ''nt'' then [Raise (RuntimeError ''Windows support not yet implemented. Sorry!'')]
      else [Raise (RuntimeError (''Unsupported operating system '' @ os_name h @ ''. '' @ ''This is almost certainly a bug.''))])"

definition dvdcss_part2 :: "stmt list" where
  "dvdcss_part2 =
    [ClassStmt ''_IOVec'' Structure (Some IOVec_fields),
     ClassStmt ''_DVDTitle'' Structure None,
     AssignFields ''_DVDTitle'' DVDTitle_fields,
     ClassStmt ''_CSS'' Structure (Some CSS_fields),
     ClassStmt ''_DVDCSSS'' Structure None,
     ClassStmt ''_DVDCSSStreamCB'' Structure (Some DVDCSSStreamCB_fields),
     BindFunction ''dvdcss_open'' ''_libdvdcss'' ''dvdcss_open'',
     SetAttr ''dvdcss_open'' ''restype'' (TypeVal DVDCSST),
     SetAttr ''dvdcss_open'' ''argtypes'' (TupleVal [POINTER c_char]),
     BindFunction ''dvdcss_open_stream'' ''_libdvdcss'' ''dvdcss_open_stream'',
     SetAttr ''dvdcss_open_stream'' ''restype'' (TypeVal DVDCSST),
     SetAttr ''dvdcss_open_stream'' ''argtypes'' (TupleVal [c_void_p, POINTER DVDCSSStreamCB]),
     BindFunction ''dvdcss_close'' ''_libdvdcss'' ''dvdcss_close'',
     SetAttr ''dvdcss_close'' ''restype'' (TypeVal c_int),
     SetAttr ''dvdcss_close'' ''argtypes'' (TupleVal [DVDCSST]),
     BindFunction ''dvdcss_seek'' ''_libdvdcss'' ''dvdcss_seek'',
     SetAttr ''dvdcss_seek'' ''restype'' (TypeVal c_int),
     SetAttr ''dvdcss_seek'' ''argtypes'' (TupleVal [DVDCSST, c_int, c_int]),
     BindFunction ''dvdcss_read'' ''_libdvdcss'' ''dvdcss_read'',
     SetAttr ''dvdcss_read'' ''restype'' (TypeVal c_int),
     SetAttr ''dvdcss_read'' ''argtypes'' (TupleVal [DVDCSST, c_void_p, c_int, c_int]),
     BindFunction ''dvdcss_readv'' ''_libdvdcss'' ''dvdcss_readv'',
     SetAttr ''dvdcss_readv'' ''restype'' (TypeVal c_int),
     SetAttr ''dvdcss_readv'' ''argtypes'' (TupleVal [DVDCSST, c_void_p, c_int, c_int]),
     BindFunction ''dvdcss_error'' ''_libdvdcss'' ''dvdcss_error'',
     SetAttr ''dvdcss_error'' ''restype'' (TypeVal (POINTER c_char)),
     SetAttr ''dvdcss_error'' ''argtypes'' (TupleVal [DVDCSST]),
     BindFunction ''dvdcss_is_scrambled'' ''_libdvdcss'' ''dvdcss_is_scrambled'',
     SetAttr ''dvdcss_is_scrambled'' ''restype'' (TypeVal c_int),
     SetAttr ''dvdcss_is_scrambled'' ''argtypes'' (TupleVal [DVDCSST]),
     AssignFields ''_DVDCSSS'' DVDCSSS_fields]"

definition dvdcss_part3 :: "host \<Rightarrow> stmt list" where
  "dvdcss_part3 h =
     (if os_name h = ''nt'' then [AppendField ''_DVDCSSS'' (Field ''b_file'' c_int), AppendField ''_DVDCSSS'' (Field ''p_readv_buffer'' (POINTER c_char)), AppendField ''_DVDCSSS'' (Field ''i_readv_buf_size'' c_int)]
      else [])"

definition dvdcss_part4 :: "stmt list" where
  "dvdcss_part4 =
    [AppendField ''_DVDCSSS'' (Field ''p_stream'' c_void_p),
     AppendField ''_DVDCSSS'' (Field ''p_stream_cb'' (POINTER DVDCSSStreamCB))]"

text \<open>The statements of \<^verbatim>\<open>dvdcss.py\<close> in source order.\<close>

definition dvdcss_body :: "host \<Rightarrow> stmt list" where
  "dvdcss_body h =
     dvdcss_part1 h
     @ dvdcss_part2
     @ dvdcss_part3 h
     @ dvdcss_part4"

definition import_dvdcss :: "host \<Rightarrow> pystate \<Rightarrow> pystate result" where
  "import_dvdcss h st = exec_all h (dvdcss_body h) st"

section \<open>dvdread.py: bindings of libdvdread\<close>

definition POSIX_DVDREAD_LIB :: string where
  "POSIX_DVDREAD_LIB = ''libdvdread.so.8''"

definition WIN_VLCCORE_LIB :: "host \<Rightarrow> string" where
  "WIN_VLCCORE_LIB h = expandvars h ''%PROGRAMFILES%/VideoLAN/VLC/libvlccore.dll''"

definition WIN_DVDREAD_LIB :: "host \<Rightarrow> string" where
  "WIN_DVDREAD_LIB h = expandvars h ''%PROGRAMFILES%/VideoLAN/VLC/plugins/access/libdvdread_plugin.dll''"

definition OffT :: ctype where
  "OffT = c_long"

definition DVDInputS :: ctype where
  "DVDInputS = Class ''_DVDInputS''"

definition DVDInputT :: ctype where
  "DVDInputT = POINTER DVDInputS"

definition DVDReaderDeviceS :: ctype where
  "DVDReaderDeviceS = Class ''_DVDReaderDeviceS''"

definition DVDReaderDeviceS_fields :: "field list" where
  "DVDReaderDeviceS_fields =
    [Field ''isImageFile'' c_int,
     Field ''css_state'' c_int,
     Field ''css_title'' c_int,
     Field ''dev'' DVDInputT,
     Field ''path_root'' (POINTER c_char),
     Field ''udfcache_level'' c_int,
     Field ''udfcache'' c_void_p]"

definition TITLES_MAX :: nat where
  "TITLES_MAX = 9"

definition DVDFileS :: ctype where
  "DVDFileS = Class ''_DVDFileS''"

definition DVDReaderS :: ctype where
  "DVDReaderS = Class ''_DVDReaderS''"

definition GetBitsStateT :: ctype where
  "GetBitsStateT = Class ''_GetBitsStateT''"

definition GetBitsStateT_fields :: "field list" where
  "GetBitsStateT_fields =
    [Field ''start'' (POINTER c_uint8),
     Field ''byte_position'' c_uint32,
     Field ''bit_position'' c_uint32]"

definition DVD_VIDEO_LB_LEN :: nat where
  "DVD_VIDEO_LB_LEN = 2048"

definition MAX_UDF_FILE_NAME_LEN :: nat where
  "MAX_UDF_FILE_NAME_LEN = 2048"

definition DVDReaderT :: ctype where
  "DVDReaderT = DVDReaderS"

definition DVDReaderDeviceT :: ctype where
  "DVDReaderDeviceT = DVDReaderDeviceS"

definition DVDFileT :: ctype where
  "DVDFileT = DVDFileS"

definition DVDReaderStreamCB :: ctype where
  "DVDReaderStreamCB = Class ''_DVDReaderStreamCB''"

definition DVDReaderStreamCB_fields :: "field list" where
  "DVDReaderStreamCB_fields =
    [Field ''pf_seek'' (CFUNCTYPE (POINTER c_int) [c_void_p, c_int64]),
     Field ''pf_read'' (CFUNCTYPE (POINTER c_int) [c_void_p, c_void_p, c_int]),
     Field ''pf_readv'' (CFUNCTYPE (POINTER c_int) [c_void_p, c_void_p, c_int])]"

definition DVDLoggerLevelT :: ctype where
  "DVDLoggerLevelT = c_int"

definition DVDLoggerCB :: ctype where
  "DVDLoggerCB = Class ''_DVDLoggerCB''"

definition DVDLoggerCB_fields :: "field list" where
  "DVDLoggerCB_fields =
    [Field ''pf_log'' (CFUNCTYPE c_void_p [c_void_p, DVDLoggerLevelT, POINTER c_char])]"

definition DVDStatT :: ctype where
  "DVDStatT = Class ''_DVDStatT''"

definition DVDStatT_fields :: "field list" where
  "DVDStatT_fields =
    [Field ''size'' OffT,
     Field ''nr_parts'' c_int,
     Field ''parts_size'' (Array OffT 9)]"

definition DVDReadDomainT :: ctype where
  "DVDReadDomainT = c_int"

definition DVDTimeT :: ctype where
  "DVDTimeT = Class ''_DVDTimeT''"

definition DVDTimeT_fields :: "field list" where
  "DVDTimeT_fields =
    [Field ''hour'' c_uint8,
     Field ''minute'' c_uint8,
     Field ''second'' c_uint8,
     Field ''frame_u'' c_uint8]"

definition VMCmdT :: ctype where
  "VMCmdT = Class ''_VMCmdT''"

definition VMCmdT_fields :: "field list" where
  "VMCmdT_fields =
    [Field ''bytes'' (Array c_uint8 8)]"

definition COMMAND_DATA_SIZE :: nat where
  "COMMAND_DATA_SIZE = 8"

definition VideoAttrT :: ctype where
  "VideoAttrT = Class ''_VideoAttrT''"

definition VideoAttrT_fields :: "field list" where
  "VideoAttrT_fields =
    [BitField ''mpeg_version'' c_ubyte 2,
     BitField ''video_format'' c_ubyte 2,
     BitField ''display_aspect_ratio'' c_ubyte 2,
     BitField ''permitted_df'' c_ubyte 2,
     BitField ''line21_cc_1'' c_ubyte 1,
     BitField ''line21_cc_2'' c_ubyte 1,
     BitField ''unknown1'' c_ubyte 1,
     BitField ''bit_rate'' c_ubyte 1,
     BitField ''picture_size'' c_ubyte 2,
     BitField ''letterboxed'' c_ubyte 1,
     BitField ''film_mode'' c_ubyte 1]"

definition AudioAttrT_AppInfo_Karaoke :: ctype where
  "AudioAttrT_AppInfo_Karaoke = Class ''_AudioAttrT._AppInfo._Karaoke''"

definition AudioAttrT_AppInfo_Karaoke_fields :: "field list" where
  "AudioAttrT_AppInfo_Karaoke_fields =
    [BitField ''unknown4'' c_ubyte 1,
     BitField ''channel_assignment'' c_ubyte 3,
     BitField ''version'' c_ubyte 2,
     BitField ''mc_intro'' c_ubyte 1,
     BitField ''mode'' c_ubyte 1]"

definition AudioAttrT_AppInfo_Surround :: ctype where
  "AudioAttrT_AppInfo_Surround = Class ''_AudioAttrT._AppInfo._Surround''"

definition AudioAttrT_AppInfo_Surround_fields :: "field list" where
  "AudioAttrT_AppInfo_Surround_fields =
    [BitField ''unknown5'' c_ubyte 4,
     BitField ''dolby_encoded'' c_ubyte 1,
     BitField ''unknown6'' c_ubyte 3]"

definition AudioAttrT_AppInfo :: ctype where
  "AudioAttrT_AppInfo = Class ''_AudioAttrT._AppInfo''"

definition AudioAttrT_AppInfo_fields :: "field list" where
  "AudioAttrT_AppInfo_fields =
    [Field ''karaoke'' AudioAttrT_AppInfo_Karaoke,
     Field ''surround'' AudioAttrT_AppInfo_Surround]"

definition AudioAttrT :: ctype where
  "AudioAttrT = Class ''_AudioAttrT''"

definition AudioAttrT_fields :: "field list" where
  "AudioAttrT_fields =
    [BitField ''audio_format'' c_ubyte 3,
     BitField ''multichannel_extension'' c_ubyte 1,
     BitField ''lang_type'' c_ubyte 2,
     BitField ''application_mode'' c_ubyte 2,
     BitField ''quantization'' c_ubyte 2,
     BitField ''sample_frequency'' c_ubyte 2,
     BitField ''unknown1'' c_ubyte 1,
     BitField ''channels'' c_ubyte 3,
     Field ''lang_code'' c_uint16,
     Field ''lang_extension'' c_uint8,
     Field ''code_extension'' c_uint8,
     Field ''unknown3'' c_uint8,
     Field ''app_info'' AudioAttrT_AppInfo]"

definition MultichannelExtT :: ctype where
  "MultichannelExtT = Class ''_MultichannelExtT''"

definition MultichannelExtT_fields :: "field list" where
  "MultichannelExtT_fields =
    [BitField ''zero1'' c_ubyte 7,
     BitField ''ach0_gme'' c_ubyte 1,
     BitField ''zero2'' c_ubyte 7,
     BitField ''ach1_gme'' c_ubyte 1,
     BitField ''zero3'' c_ubyte 4,
     BitField ''ach2_gv1e'' c_ubyte 1,
     BitField ''ach2_gv2e'' c_ubyte 1,
     BitField ''ach2_gm1e'' c_ubyte 1,
     BitField ''ach2_gm2e'' c_ubyte 1,
     BitField ''zero4'' c_ubyte 4,
     BitField ''ach3_gv1e'' c_ubyte 1,
     BitField ''ach3_gv2e'' c_ubyte 1,
     BitField ''ach3_gmAe'' c_ubyte 1,
     BitField ''ach3_se2e'' c_ubyte 1,
     BitField ''zero5'' c_ubyte 4,
     BitField ''ach4_gv1e'' c_ubyte 1,
     BitField ''ach4_gv2e'' c_ubyte 1,
     BitField ''ach4_gmBe'' c_ubyte 1,
     BitField ''ach4_seBe'' c_ubyte 1,
     Field ''zero6'' (Array c_uint8 19)]"

definition SubPAttrT :: ctype where
  "SubPAttrT = Class ''_SubPAttrT''"

definition SubPAttrT_fields :: "field list" where
  "SubPAttrT_fields =
    [BitField ''code_mode'' c_ubyte 3,
     BitField ''zero1'' c_ubyte 3,
     BitField ''type'' c_ubyte 2,
     Field ''zero2'' c_uint8,
     Field ''lang_code'' c_uint16,
     Field ''lang_extension'' c_uint8,
     Field ''code_extension'' c_uint8]"

definition PGCCommandTblT :: ctype where
  "PGCCommandTblT = Class ''_PGCCommandTblT''"

definition PGCCommandTblT_fields :: "field list" where
  "PGCCommandTblT_fields =
    [Field ''nr_of_pre'' c_uint16,
     Field ''nr_of_post'' c_uint16,
     Field ''nr_of_cell'' c_uint16,
     Field ''last_byte'' c_uint16,
     Field ''pre_cmds'' (POINTER VMCmdT),
     Field ''post_cmds'' (POINTER VMCmdT),
     Field ''cell_cmds'' (POINTER VMCmdT)]"

definition PGC_COMMAND_TBL_SIZE :: nat where
  "PGC_COMMAND_TBL_SIZE = 8"

definition PGCProgramMapT :: ctype where
  "PGCProgramMapT = c_uint8"

definition CellPlaybackT :: ctype where
  "CellPlaybackT = Class ''_CellPlaybackT''"

definition CellPlaybackT_fields :: "field list" where
  "CellPlaybackT_fields =
    [BitField ''block_mode'' c_ubyte 2,
     BitField ''block_type'' c_ubyte 2,
     BitField ''seamless_play'' c_ubyte 1,
     BitField ''interleaved'' c_ubyte 1,
     BitField ''stc_discontinuity'' c_ubyte 1,
     BitField ''seamless_angle'' c_ubyte 1,
     BitField ''zero_1'' c_ubyte 1,
     BitField ''playback_mode'' c_ubyte 1,
     BitField ''restricted'' c_ubyte 1,
     BitField ''cell_type'' c_ubyte 5,
     Field ''still_time'' c_uint8,
     Field ''cell_cmd_nr'' c_uint8,
     Field ''playback_time'' DVDTimeT,
     Field ''first_sector'' c_uint32,
     Field ''first_ilvu_end_sector'' c_uint32,
     Field ''last_vobu_start_sector'' c_uint32,
     Field ''last_sector'' c_uint32]"

definition BLOCK_TYPE_NONE :: nat where
  "BLOCK_TYPE_NONE = 0"

definition BLOCK_TYPE_ANGLE_BLOCK :: nat where
  "BLOCK_TYPE_ANGLE_BLOCK = 1"

definition BLOCK_MODE_NOT_IN_BLOCK :: nat where
  "BLOCK_MODE_NOT_IN_BLOCK = 0"

definition BLOCK_MODE_FIRST_CELL :: nat where
  "BLOCK_MODE_FIRST_CELL = 1"

definition BLOCK_MODE_IN_BLOCK :: nat where
  "BLOCK_MODE_IN_BLOCK = 2"

definition BLOCK_MODE_LAST_CELL :: nat where
  "BLOCK_MODE_LAST_CELL = 3"

definition CellPositionT :: ctype where
  "CellPositionT = Class ''_CellPositionT''"

definition CellPositionT_fields :: "field list" where
  "CellPositionT_fields =
    [Field ''vob_id_nr'' c_uint16,
     Field ''zero_1'' c_uint8,
     Field ''cell_nr'' c_uint8]"

definition UserOpsT :: ctype where
  "UserOpsT = Class ''_UserOpsT''"

definition UserOpsT_fields :: "field list" where
  "UserOpsT_fields =
    [BitField ''zero'' c_ubyte 7,
     BitField ''video_pres_mode_change'' c_ubyte 1,
     BitField ''karaoke_audio_pres_mode_change'' c_ubyte 1,
     BitField ''angle_change'' c_ubyte 1,
     BitField ''subpic_stream_change'' c_ubyte 1,
     BitField ''audio_stream_change'' c_ubyte 1,
     BitField ''pause_on'' c_ubyte 1,
     BitField ''still_off'' c_ubyte 1,
     BitField ''button_select_or_activate'' c_ubyte 1,
     BitField ''resume'' c_ubyte 1,
     BitField ''chapter_menu_call'' c_ubyte 1,
     BitField ''angle_menu_call'' c_ubyte 1,
     BitField ''audio_menu_call'' c_ubyte 1,
     BitField ''subpic_menu_call'' c_ubyte 1,
     BitField ''root_menu_call'' c_ubyte 1,
     BitField ''title_menu_call'' c_ubyte 1,
     BitField ''backward_scan'' c_ubyte 1,
     BitField ''forward_scan'' c_ubyte 1,
     BitField ''next_pg_search'' c_ubyte 1,
     BitField ''prev_or_top_pg_search'' c_ubyte 1,
     BitField ''time_or_chapter_search'' c_ubyte 1,
     BitField ''go_up'' c_ubyte 1,
     BitField ''stop'' c_ubyte 1,
     BitField ''title_play'' c_ubyte 1,
     BitField ''chapter_search_or_play'' c_ubyte 1,
     BitField ''title_or_time_play'' c_ubyte 1]"

definition PGCT :: ctype where
  "PGCT = Class ''_PGCT''"

definition PGCT_fields :: "field list" where
  "PGCT_fields =
    [Field ''zero_1'' c_uint16,
     Field ''nr_of_programs'' c_uint8,
     Field ''nr_of_cells'' c_uint8,
     Field ''playback_time'' DVDTimeT,
     Field ''prohibited_ops'' UserOpsT,
     Field ''audio_control'' (Array c_uint16 8),
     Field ''subp_control'' (Array c_uint32 32),
     Field ''next_pgc_nr'' c_uint16,
     Field ''prev_pgc_nr'' c_uint16,
     Field ''goup_pgc_nr'' c_uint16,
     Field ''pg_playback_mode'' c_uint8,
     Field ''still_time'' c_uint8,
     Field ''palette'' (Array c_uint32 16),
     Field ''command_tbl_offset'' c_uint16,
     Field ''program_map_offset'' c_uint16,
     Field ''cell_playback_offset'' c_uint16,
     Field ''cell_position_offset'' c_uint16,
     Field ''command_tbl'' (POINTER PGCCommandTblT),
     Field ''program_map'' (POINTER PGCProgramMapT),
     Field ''cell_playback'' (POINTER CellPlaybackT),
     Field ''cell_position'' (POINTER CellPositionT),
     Field ''ref_count'' c_int]"

definition PGC_SIZE :: nat where
  "PGC_SIZE = 236"

definition PGCISrPT :: ctype where
  "PGCISrPT = Class ''_PGCISrPT''"

definition PGCISrPT_fields :: "field list" where
  "PGCISrPT_fields =
    [Field ''entry_id'' c_uint8,
     BitField ''block_mode'' c_ubyte 2,
     BitField ''block_type'' c_ubyte 2,
     BitField ''zero_1'' c_ubyte 4,
     Field ''ptl_id_mask'' c_uint16,
     Field ''pgc_start_byte'' c_uint32,
     Field ''pgc'' (POINTER PGCT)]"

definition PGCI_SRP_SIZE :: nat where
  "PGCI_SRP_SIZE = 8"

definition PGCITT :: ctype where
  "PGCITT = Class ''_PGCITT''"

definition PGCITT_fields :: "field list" where
  "PGCITT_fields =
    [Field ''nr_of_pgci_srp'' c_uint16,
     Field ''zero_1'' c_uint16,
     Field ''last_byte'' c_uint32,
     Field ''pgci_srp'' (POINTER PGCISrPT),
     Field ''ref_count'' c_int]"

definition PGCIT_SIZE :: nat where
  "PGCIT_SIZE = 8"

definition PGCILUT :: ctype where
  "PGCILUT = Class ''_PGCILUT''"

definition PGCILUT_fields :: "field list" where
  "PGCILUT_fields =
    [Field ''lang_code'' c_uint16,
     Field ''lang_extension'' c_uint8,
     Field ''exists'' c_uint8,
     Field ''lang_start_byte'' c_uint32,
     Field ''pgcit'' (POINTER PGCITT)]"

definition PGCI_LU_SIZE :: nat where
  "PGCI_LU_SIZE = 8"

definition PGCIUTT :: ctype where
  "PGCIUTT = Class ''_PGCIUTT''"

definition PGCIUTT_fields :: "field list" where
  "PGCIUTT_fields =
    [Field ''nr_of_lus'' c_uint16,
     Field ''zero_1'' c_uint16,
     Field ''last_byte'' c_uint32,
     Field ''lu'' (POINTER PGCILUT)]"

definition PGCI_UT_SIZE :: nat where
  "PGCI_UT_SIZE = 8"

definition CellAdrT :: ctype where
  "CellAdrT = Class ''_CellAdrT''"

definition CellAdrT_fields :: "field list" where
  "CellAdrT_fields =
    [Field ''vob_id'' c_uint16,
     Field ''cell_id'' c_uint8,
     Field ''zero_1'' c_uint8,
     Field ''start_sector'' c_uint32,
     Field ''last_sector'' c_uint32]"

definition CAdTT :: ctype where
  "CAdTT = Class ''_CAdTT''"

definition CAdTT_fields :: "field list" where
  "CAdTT_fields =
    [Field ''nr_of_vobs'' c_uint16,
     Field ''zero_1'' c_uint16,
     Field ''last_byte'' c_uint32,
     Field ''cell_adr_table'' (POINTER CellAdrT)]"

definition C_ADT_SIZE :: nat where
  "C_ADT_SIZE = 8"

definition VOBUAdMapT :: ctype where
  "VOBUAdMapT = Class ''_VOBUAdMapT''"

definition VOBUAdMapT_fields :: "field list" where
  "VOBUAdMapT_fields =
    [Field ''last_byte'' c_uint32,
     Field ''vobu_start_sectors'' (POINTER c_uint32)]"

definition VOBU_ADMAP_SIZE :: nat where
  "VOBU_ADMAP_SIZE = 4"

definition VMGIMatT :: ctype where
  "VMGIMatT = Class ''_VMGIMatT''"

definition VMGIMatT_fields :: "field list" where
  "VMGIMatT_fields =
    [Field ''vmg_identifier'' (Array c_char 12),
     Field ''vmg_last_sector'' c_uint32,
     Field ''zero_1'' (Array c_uint8 12),
     Field ''vmgi_last_sector'' c_uint32,
     Field ''zero_2'' c_uint8,
     Field ''specification_version'' c_uint8,
     Field ''vmg_category'' c_uint32,
     Field ''vmg_nr_of_volumes'' c_uint16,
     Field ''vmg_this_volume_nr'' c_uint16,
     Field ''disc_side'' c_uint8,
     Field ''zero_3'' (Array c_uint8 19),
     Field ''vmg_nr_of_title_sets'' c_uint16,
     Field ''provider_identifier'' (Array c_char 32),
     Field ''vmg_pos_code'' c_uint64,
     Field ''zero_4'' (Array c_uint8 24),
     Field ''vmgi_last_byte'' c_uint32,
     Field ''first_play_pgc'' c_uint32,
     Field ''zero_5'' (Array c_uint8 56),
     Field ''vmgm_vobs'' c_uint32,
     Field ''tt_srpt'' c_uint32,
     Field ''vmgm_pgci_ut'' c_uint32,
     Field ''ptl_mait'' c_uint32,
     Field ''vts_atrt'' c_uint32,
     Field ''txtdt_mgi'' c_uint32,
     Field ''vmgm_c_adt'' c_uint32,
     Field ''vmgm_vobu_admap'' c_uint32,
     Field ''zero_6'' (Array c_uint8 32),
     Field ''vmgm_video_attr'' VideoAttrT,
     Field ''zero_7'' c_uint8,
     Field ''nr_of_vmgm_audio_streams'' c_uint8,
     Field ''vmgm_audio_attr'' AudioAttrT,
     Field ''zero_8'' (Array AudioAttrT 7),
     Field ''zero_9'' (Array c_uint8 17),
     Field ''nr_of_vmgm_subp_streams'' c_uint8,
     Field ''vmgm_subp_attr'' SubPAttrT,
     Field ''zero_10'' (Array SubPAttrT 27)]"

definition PlaybackTypeT :: ctype where
  "PlaybackTypeT = Class ''_PlaybackTypeT''"

definition PlaybackTypeT_fields :: "field list" where
  "PlaybackTypeT_fields =
    [BitField ''zero_1'' c_ubyte 1,
     BitField ''multi_or_random_pgc_title'' c_ubyte 1,
     BitField ''jlc_exists_in_cell_cmd'' c_ubyte 1,
     BitField ''jlc_exists_in_prepost_cmd'' c_ubyte 1,
     BitField ''jlc_exists_in_button_cmd'' c_ubyte 1,
     BitField ''jlc_exists_in_tt_dom'' c_ubyte 1,
     BitField ''chapter_search_or_play'' c_ubyte 1,
     BitField ''title_or_time_play'' c_ubyte 1]"

definition TitleInfoT :: ctype where
  "TitleInfoT = Class ''_TitleInfoT''"

definition TitleInfoT_fields :: "field list" where
  "TitleInfoT_fields =
    [Field ''pb_ty'' PlaybackTypeT,
     Field ''nr_of_angles'' c_uint8,
     Field ''nr_of_ptts'' c_uint16,
     Field ''parental_id'' c_uint16,
     Field ''title_set_nr'' c_uint8,
     Field ''vts_ttn'' c_uint8,
     Field ''title_set_sector'' c_uint32]"

definition TtSrPTT :: ctype where
  "TtSrPTT = Class ''_TtSrPTT''"

definition TtSrPTT_fields :: "field list" where
  "TtSrPTT_fields =
    [Field ''nr_of_srpts'' c_uint16,
     Field ''zero_1'' c_uint16,
     Field ''last_byte'' c_uint32,
     Field ''title'' (POINTER TitleInfoT)]"

definition TT_SRPT_SIZE :: nat where
  "TT_SRPT_SIZE = 8"

definition PTL_MAIT_NUM_LEVEL :: nat where
  "PTL_MAIT_NUM_LEVEL = 8"

definition PFLevelT :: ctype where
  "PFLevelT = Array c_uint16 PTL_MAIT_NUM_LEVEL"

definition PtlMaITCountryT :: ctype where
  "PtlMaITCountryT = Class ''_PtlMaITCountryT''"

definition PtlMaITCountryT_fields :: "field list" where
  "PtlMaITCountryT_fields =
    [Field ''country_code'' c_uint16,
     Field ''zero_1'' c_uint16,
     Field ''pf_ptl_mai_start_byte'' c_uint16,
     Field ''zero_2'' c_uint16,
     Field ''pf_ptl_mai'' (POINTER PFLevelT)]"

definition PTL_MAIT_COUNTRY_SIZE :: nat where
  "PTL_MAIT_COUNTRY_SIZE = 8"

definition PtlMaITT :: ctype where
  "PtlMaITT = Class ''_PtlMaITT''"

definition PtlMaITT_fields :: "field list" where
  "PtlMaITT_fields =
    [Field ''nr_of_countries'' c_uint16,
     Field ''nr_of_vtss'' c_uint16,
     Field ''last_byte'' c_uint32,
     Field ''countries'' (POINTER PtlMaITCountryT)]"

definition PTL_MAIT_SIZE :: nat where
  "PTL_MAIT_SIZE = 8"

definition VTSAttributesT :: ctype where
  "VTSAttributesT = Class ''_VTSAttributesT''"

definition VTSAttributesT_fields :: "field list" where
  "VTSAttributesT_fields =
    [Field ''last_byte'' c_uint32,
     Field ''vts_cat'' c_uint32,
     Field ''vtsm_vobs_attr'' VideoAttrT,
     Field ''zero_1'' c_uint8,
     Field ''nr_of_vtsm_audio_streams'' c_uint8,
     Field ''vtsm_audio_attr'' AudioAttrT,
     Field ''zero_2'' (Array AudioAttrT 7),
     Field ''zero_3'' (Array c_uint8 16),
     Field ''zero_4'' c_uint8,
     Field ''nr_of_vtsm_subp_streams'' c_uint8,
     Field ''vtsm_subp_attr'' SubPAttrT,
     Field ''zero_5'' (Array SubPAttrT 27),
     Field ''zero_6'' (Array c_uint8 2),
     Field ''vtstt_vobs_video_attr'' VideoAttrT,
     Field ''zero_7'' c_uint8,
     Field ''nr_of_vtstt_audio_streams'' c_uint8,
     Field ''vtstt_audio_attr'' (Array AudioAttrT 8),
     Field ''zero_8'' (Array c_uint8 16),
     Field ''zero_9'' c_uint8,
     Field ''nr_of_vtstt_subp_streams'' c_uint8,
     Field ''vtstt_subp_attr'' (Array SubPAttrT 32)]"

definition VTS_ATTRIBUTES_SIZE :: nat where
  "VTS_ATTRIBUTES_SIZE = 542"

definition VTS_ATTRIBUTES_MIN_SIZE :: nat where
  "VTS_ATTRIBUTES_MIN_SIZE = 356"

definition VTSAtrTT :: ctype where
  "VTSAtrTT = Class ''_VTSAtrTT''"

definition VTSAtrTT_fields :: "field list" where
  "VTSAtrTT_fields =
    [Field ''nr_of_vtss'' c_uint16,
     Field ''zero_1'' c_uint16,
     Field ''last_byte'' c_uint32,
     Field ''vts'' (POINTER VTSAttributesT),
     Field ''vts_atrt_offsets'' (POINTER c_uint32)]"

definition VTS_ATRT_SIZE :: nat where
  "VTS_ATRT_SIZE = 8"

definition TxtDtT :: ctype where
  "TxtDtT = Class ''_TxtDtT''"

definition TxtDtT_fields :: "field list" where
  "TxtDtT_fields =
    [Field ''last_byte'' c_uint32,
     Field ''offsets'' (Array c_uint16 100),
     Field ''unknown'' c_uint16,
     Field ''zero_1'' c_uint16,
     Field ''type_of_info'' c_uint8,
     Field ''unknown1'' c_uint8,
     Field ''unknown2'' c_uint8,
     Field ''unknown3'' c_uint8,
     Field ''unknown4'' c_uint8,
     Field ''unknown5'' c_uint8,
     Field ''offset'' c_uint16,
     Field ''text'' (Array c_char 12)]"

definition TxtDtLUT :: ctype where
  "TxtDtLUT = Class ''_TxtDtLUT''"

definition TxtDtLUT_fields :: "field list" where
  "TxtDtLUT_fields =
    [Field ''lang_code'' c_uint16,
     Field ''zero_1'' c_uint8,
     Field ''char_set'' c_uint8,
     Field ''txtdt_start_byte'' c_uint32,
     Field ''txtdt'' (POINTER TxtDtT)]"

definition TXTDT_LU_SIZE :: nat where
  "TXTDT_LU_SIZE = 8"

definition TxtDtMgIT :: ctype where
  "TxtDtMgIT = Class ''_TxtDtMgIT''"

definition TxtDtMgIT_fields :: "field list" where
  "TxtDtMgIT_fields =
    [Field ''disc_name'' (Array c_char 12),
     Field ''unknown1'' c_uint16,
     Field ''nr_of_language_units'' c_uint16,
     Field ''last_byte'' c_uint32,
     Field ''lu'' (POINTER TxtDtLUT)]"

definition TXTDT_MGI_SIZE :: nat where
  "TXTDT_MGI_SIZE = 20"

definition VTSIMaTT :: ctype where
  "VTSIMaTT = Class ''_VTSIMaTT''"

definition VTSIMaTT_fields :: "field list" where
  "VTSIMaTT_fields =
    [Field ''vts_identifier'' (Array c_char 12),
     Field ''vts_last_sector'' c_uint32,
     Field ''zero_1'' (Array c_uint8 12),
     Field ''vtsi_last_sector'' c_uint32,
     Field ''zero_2'' c_uint8,
     Field ''specification_version'' c_uint8,
     Field ''vts_category'' c_uint32,
     Field ''zero_3'' c_uint16,
     Field ''zero_4'' c_uint16,
     Field ''zero_5'' c_uint8,
     Field ''zero_6'' (Array c_uint8 19),
     Field ''zero_7'' c_uint16,
     Field ''zero_8'' (Array c_uint8 32),
     Field ''zero_9'' c_uint64,
     Field ''zero_10'' (Array c_uint8 24),
     Field ''vtsi_last_byte'' c_uint32,
     Field ''zero_11'' c_uint32,
     Field ''zero_12'' (Array c_uint8 56),
     Field ''vtsm_vobs'' c_uint32,
     Field ''vtstt_vobs'' c_uint32,
     Field ''vts_ptt_srpt'' c_uint32,
     Field ''vts_pgcit'' c_uint32,
     Field ''vtsm_pgci_ut'' c_uint32,
     Field ''vts_tmapt'' c_uint32,
     Field ''vtsm_c_adt'' c_uint32,
     Field ''vtsm_vobu_admap'' c_uint32,
     Field ''vts_c_adt'' c_uint32,
     Field ''vts_vobu_admap'' c_uint32,
     Field ''zero_13'' (Array c_uint8 24),
     Field ''vtsm_video_attr'' VideoAttrT,
     Field ''zero_14'' c_uint8,
     Field ''nr_of_vtsm_audio_streams'' c_uint8,
     Field ''vtsm_audio_attr'' AudioAttrT,
     Field ''zero_15'' (Array AudioAttrT 7),
     Field ''zero_16'' (Array c_uint8 17),
     Field ''nr_of_vtsm_subp_streams'' c_uint8,
     Field ''vtsm_subp_attr'' SubPAttrT,
     Field ''zero_17'' (Array SubPAttrT 27),
     Field ''zero_18'' (Array c_uint8 2),
     Field ''vts_video_attr'' VideoAttrT,
     Field ''zero_19'' c_uint8,
     Field ''nr_of_vts_audio_streams'' c_uint8,
     Field ''vts_audio_attr'' (Array AudioAttrT 8),
     Field ''zero_20'' (Array c_uint8 17),
     Field ''nr_of_vts_subp_streams'' c_uint8,
     Field ''vts_subp_attr'' (Array SubPAttrT 32),
     Field ''zero_21'' c_uint16,
     Field ''vts_mu_audio_attr'' (Array MultichannelExtT 8)]"

definition PtTInfoT :: ctype where
  "PtTInfoT = Class ''_PtTInfoT''"

definition PtTInfoT_fields :: "field list" where
  "PtTInfoT_fields =
    [Field ''pgcn'' c_uint16,
     Field ''pgn'' c_uint16]"

definition TTUT :: ctype where
  "TTUT = Class ''_TTUT''"

definition TTUT_fields :: "field list" where
  "TTUT_fields =
    [Field ''nr_of_ptts'' c_uint16,
     Field ''ptt'' (POINTER PtTInfoT)]"

definition VTSPtTSrPTT :: ctype where
  "VTSPtTSrPTT = Class ''_VTSPtTSrPTT''"

definition VTSPtTSrPTT_fields :: "field list" where
  "VTSPtTSrPTT_fields =
    [Field ''nr_of_srpts'' c_uint16,
     Field ''zero_1'' c_uint16,
     Field ''last_byte'' c_uint32,
     Field ''title'' (POINTER TTUT),
     Field ''ttu_offset'' (POINTER c_uint32)]"

definition VTS_PTT_SRPT_SIZE :: nat where
  "VTS_PTT_SRPT_SIZE = 8"

definition MapEntT :: ctype where
  "MapEntT = c_uint32"

definition VTSTMapT :: ctype where
  "VTSTMapT = Class ''_VTSTMapT''"

definition VTSTMapT_fields :: "field list" where
  "VTSTMapT_fields =
    [Field ''tmu'' c_uint8,
     Field ''zero_1'' c_uint8,
     Field ''nr_of_entries'' c_uint16,
     Field ''map_ent'' (POINTER MapEntT)]"

definition VTS_TMAP_SIZE :: nat where
  "VTS_TMAP_SIZE = 4"

definition VTSTMapTT :: ctype where
  "VTSTMapTT = Class ''_VTSTMapTT''"

definition VTSTMapTT_fields :: "field list" where
  "VTSTMapTT_fields =
    [Field ''nr_of_tmaps'' c_uint16,
     Field ''zero_1'' c_uint16,
     Field ''last_byte'' c_uint32,
     Field ''tmap'' (POINTER VTSTMapT),
     Field ''tmap_offset'' (POINTER c_uint32)]"

definition VTS_TMAPT_SIZE :: nat where
  "VTS_TMAPT_SIZE = 8"

definition IFOHandleT :: ctype where
  "IFOHandleT = Class ''_IFOHandleT''"

definition IFOHandleT_fields :: "field list" where
  "IFOHandleT_fields =
    [Field ''vmgi_mat'' (POINTER VMGIMatT),
     Field ''tt_srpt'' (POINTER TtSrPTT),
     Field ''first_play_pgc'' (POINTER PGCT),
     Field ''ptl_mait'' (POINTER PtlMaITT),
     Field ''vts_atrt'' (POINTER VTSAtrTT),
     Field ''txtdt_mgi'' (POINTER TxtDtMgIT),
     Field ''pgci_ut'' (POINTER PGCIUTT),
     Field ''menu_c_adt'' (POINTER CAdTT),
     Field ''menu_vobu_admap'' (POINTER VOBUAdMapT),
     Field ''vtsi_mat'' (POINTER VTSIMaTT),
     Field ''vts_ptt_srpt'' (POINTER VTSPtTSrPTT),
     Field ''vts_pgcit'' (POINTER PGCITT),
     Field ''vts_tmapt'' (POINTER VTSTMapTT),
     Field ''vts_c_adt'' (POINTER CAdTT),
     Field ''vts_vobu_admap'' (POINTER VOBUAdMapT)]"

definition PCI_BYTES :: nat where
  "PCI_BYTES = projr (int_base16 ''3d4'')"

definition DSI_BYTES :: nat where
  "DSI_BYTES = projr (int_base16 ''3fa'')"

definition PS2_PCI_SUBSTREAM_ID :: nat where
  "PS2_PCI_SUBSTREAM_ID = 0"

definition PS2_DSI_SUBSTREAM_ID :: nat where
  "PS2_DSI_SUBSTREAM_ID = 1"

definition DSI_START_BYTE :: nat where
  "DSI_START_BYTE = 1031"

definition PCIGIT :: ctype where
  "PCIGIT = Class ''_PCIGIT''"

definition PCIGIT_fields :: "field list" where
  "PCIGIT_fields =
    [Field ''nv_pck_lbn'' c_uint32,
     Field ''vobu_cat'' c_uint16,
     Field ''zero1'' c_uint16,
     Field ''vobu_uop_ctl'' UserOpsT,
     Field ''vobu_s_ptm'' c_uint32,
     Field ''vobu_e_ptm'' c_uint32,
     Field ''vobu_se_e_ptm'' c_uint32,
     Field ''e_eltm'' DVDTimeT,
     Field ''vobu_isrc'' (Array c_char 32)]"

definition NSmlAglIT :: ctype where
  "NSmlAglIT = Class ''_NSmlAglIT''"

definition NSmlAglIT_fields :: "field list" where
  "NSmlAglIT_fields =
    [Field ''nsml_agl_dsta'' (Array c_uint32 9)]"

definition HLGIT :: ctype where
  "HLGIT = Class ''_HLGIT''"

definition HLGIT_fields :: "field list" where
  "HLGIT_fields =
    [Field ''hli_ss'' c_uint16,
     Field ''hli_s_ptm'' c_uint32,
     Field ''hli_e_ptm'' c_uint32,
     Field ''btn_se_e_ptm'' c_uint32,
     BitField ''zero1'' c_ubyte 2,
     BitField ''btngr_ns'' c_ubyte 2,
     BitField ''zero2'' c_ubyte 1,
     BitField ''btngr1_dsp_ty'' c_ubyte 3,
     BitField ''zero3'' c_ubyte 1,
     BitField ''btngr2_dsp_ty'' c_ubyte 3,
     BitField ''zero4'' c_ubyte 1,
     BitField ''btngr3_dsp_ty'' c_ubyte 3,
     Field ''btn_ofn'' c_uint8,
     Field ''btn_ns'' c_uint8,
     Field ''nsl_btn_ns'' c_uint8,
     Field ''zero5'' c_uint8,
     Field ''fosl_btnn'' c_uint8,
     Field ''foac_btnn'' c_uint8]"

definition BtnColITT :: ctype where
  "BtnColITT = Class ''_BtnColITT''"

definition BtnColITT_fields :: "field list" where
  "BtnColITT_fields =
    [Field ''btn_coli'' (Array (Array c_uint32 3) 2)]"

definition BtnIT :: ctype where
  "BtnIT = Class ''_BtnIT''"

definition BtnIT_fields :: "field list" where
  "BtnIT_fields =
    [BitField ''btn_coln'' c_uint 2,
     BitField ''x_start'' c_uint 10,
     BitField ''zero1'' c_uint 2,
     BitField ''x_end'' c_uint 10,
     BitField ''auto_action_mode'' c_uint 2,
     BitField ''y_start'' c_uint 10,
     BitField ''zero2'' c_uint 2,
     BitField ''y_end'' c_uint 10,
     BitField ''zero3'' c_uint 2,
     BitField ''up'' c_uint 6,
     BitField ''zero4'' c_uint 2,
     BitField ''down'' c_uint 6,
     BitField ''zero5'' c_uint 2,
     BitField ''left'' c_uint 6,
     BitField ''zero6'' c_uint 2,
     BitField ''right'' c_uint 6,
     Field ''cmd'' VMCmdT]"

definition HLIT :: ctype where
  "HLIT = Class ''_HLIT''"

definition HLIT_fields :: "field list" where
  "HLIT_fields =
    [Field ''hl_gi'' HLGIT,
     Field ''btn_colit'' BtnColITT,
     Field ''btnit'' (Array BtnIT 36)]"

definition PCIT :: ctype where
  "PCIT = Class ''_PCIT''"

definition PCIT_fields :: "field list" where
  "PCIT_fields =
    [Field ''pci_gi'' PCIGIT,
     Field ''nsml_agli'' NSmlAglIT,
     Field ''hli'' HLIT,
     Field ''zero1'' (Array c_uint8 189)]"

definition DSIGIT :: ctype where
  "DSIGIT = Class ''_DSIGIT''"

definition DSIGIT_fields :: "field list" where
  "DSIGIT_fields =
    [Field ''nv_pck_scr'' c_uint32,
     Field ''nv_pck_lbn'' c_uint32,
     Field ''vobu_ea'' c_uint32,
     Field ''vobu_1stref_ea'' c_uint32,
     Field ''vobu_2ndref_ea'' c_uint32,
     Field ''vobu_3rdref_ea'' c_uint32,
     Field ''vobu_vob_idn'' c_uint16,
     Field ''zero1'' c_uint8,
     Field ''vobu_c_idn'' c_uint8,
     Field ''c_eltm'' DVDTimeT]"

definition SmlPBIT_VOBA :: ctype where
  "SmlPBIT_VOBA = Class ''_SmlPBIT._VOBA''"

definition SmlPBIT_VOBA_fields :: "field list" where
  "SmlPBIT_VOBA_fields =
    [Field ''stp_ptm1'' c_uint32,
     Field ''stp_ptm2'' c_uint32,
     Field ''gap_len1'' c_uint32,
     Field ''gap_len2'' c_uint32]"

definition SmlPBIT :: ctype where
  "SmlPBIT = Class ''_SmlPBIT''"

definition SmlPBIT_fields :: "field list" where
  "SmlPBIT_fields =
    [Field ''category'' c_uint16,
     Field ''ilvu_ea'' c_uint32,
     Field ''ilvu_sa'' c_uint32,
     Field ''size'' c_uint16,
     Field ''vob_v_s_s_ptm'' c_uint32,
     Field ''vob_v_e_e_ptm'' c_uint32,
     Field ''vob_a'' (Array SmlPBIT_VOBA 8)]"

definition SmlAglDataT :: ctype where
  "SmlAglDataT = Class ''_SmlAglDataT''"

definition SmlAglDataT_fields :: "field list" where
  "SmlAglDataT_fields =
    [Field ''address'' c_uint32,
     Field ''size'' c_uint16]"

definition SmlAglIT :: ctype where
  "SmlAglIT = Class ''_SmlAglIT''"

definition SmlAglIT_fields :: "field list" where
  "SmlAglIT_fields =
    [Field ''data'' (Array SmlAglDataT 9)]"

definition VOBUSrIT :: ctype where
  "VOBUSrIT = Class ''_VOBUSrIT''"

definition VOBUSrIT_fields :: "field list" where
  "VOBUSrIT_fields =
    [Field ''next_video'' c_uint32,
     Field ''fwda'' (Array c_uint32 19),
     Field ''next_vobu'' c_uint32,
     Field ''prev_vobu'' c_uint32,
     Field ''bwda'' (Array c_uint32 19),
     Field ''prev_video'' c_uint32]"

definition SRI_END_OF_CELL :: nat where
  "SRI_END_OF_CELL = projr (int_base16 ''3fffffff'')"

definition SyncIT :: ctype where
  "SyncIT = Class ''_SyncIT''"

definition SyncIT_fields :: "field list" where
  "SyncIT_fields =
    [Field ''a_synca'' (Array c_uint16 8),
     Field ''sp_synca'' (Array c_uint32 32)]"

definition DSIT :: ctype where
  "DSIT = Class ''_DSIT''"

definition DSIT_fields :: "field list" where
  "DSIT_fields =
    [Field ''dsi_gi'' DSIGIT,
     Field ''sml_pbi'' SmlPBIT,
     Field ''sml_agli'' SmlAglIT,
     Field ''vobu_sri'' VOBUSrIT,
     Field ''synci'' SyncIT,
     Field ''zero1'' (Array c_uint8 471)]"

definition DVDInputS_fields :: "field list" where
  "DVDInputS_fields =
    [Field ''dvdcss'' DVDCSST,
     Field ''priv'' c_void_p,
     Field ''logcb'' (POINTER DVDLoggerCB),
     Field ''ipos'' OffT,
     Field ''fd'' c_int,
     Field ''stream_cb'' (POINTER DVDReaderStreamCB)]"

definition DVDFileS_fields :: "field list" where
  "DVDFileS_fields =
    [Field ''ctx'' (POINTER DVDReaderT),
     Field ''css_title'' c_int,
     Field ''lb_start'' c_uint32,
     Field ''seek_pos'' c_uint32,
     Field ''title_sizes'' (Array c_size_t TITLES_MAX),
     Field ''title_devs'' (Array DVDInputT TITLES_MAX),
     Field ''filesize'' c_ssize_t,
     Field ''cache'' (POINTER c_ubyte)]"

definition DVDReaderS_fields :: "field list" where
  "DVDReaderS_fields =
    [Field ''rd'' (POINTER DVDReaderDeviceT),
     Field ''priv'' c_void_p,
     Field ''logcb'' DVDLoggerCB,
     Field ''ifoBUPflags'' (Array c_uint64 2)]"

definition dvdread_part1 :: "host \<Rightarrow> stmt list" where
  "dvdread_part1 h =
     (if os_name h = ''posix'' then [LoadLibrary ''_libdvdread'' POSIX_DVDREAD_LIB]
      else if os_name h = ''nt'' then [LoadLibrary ''_libvlccore'' (WIN_VLCCORE_LIB h), LoadLibrary ''_libdvdread'' (WIN_DVDREAD_LIB h)]
      else [Raise (RuntimeError (''Unsupported operating system '' @ os_name h @ ''. '' @ ''This is almost certainly a bug.''))])"

definition dvdread_part2 :: "stmt list" where
  "dvdread_part2 =
    [ClassStmt ''_DVDInputS'' Structure None,
     ClassStmt ''_DVDReaderDeviceS'' Structure (Some DVDReaderDeviceS_fields),
     ClassStmt ''_DVDFileS'' Structure None,
     ClassStmt ''_DVDReaderS'' Structure None,
     ClassStmt ''_GetBitsStateT'' Structure (Some GetBitsStateT_fields),
     BindFunction ''dvdread_getbits_init'' ''_libdvdread'' ''dvdread_getbits_init'',
     SetAttr ''dvdread_getbits_init'' ''restype'' (TypeVal c_int),
     SetAttr ''dvdread_getbits_init'' ''argtypes'' (TupleVal [POINTER GetBitsStateT, POINTER c_uint8]),
     BindFunction ''dvdread_getbits'' ''_libdvdread'' ''dvdread_getbits'',
     SetAttr ''dvdread_getbits'' ''restype'' (TypeVal c_uint32),
     SetAttr ''dvdread_getbits'' ''argtypes'' (TupleVal [POINTER GetBitsStateT, c_uint32]),
     ClassStmt ''_DVDReaderStreamCB'' Structure (Some DVDReaderStreamCB_fields),
     ClassStmt ''_DVDLoggerCB'' Structure (Some DVDLoggerCB_fields),
     ClassStmt ''_DVDStatT'' Structure (Some DVDStatT_fields),
     BindFunction ''dvd_open'' ''_libdvdread'' ''DVDOpen'',
     SetAttr ''dvd_open'' ''restype'' (TypeVal (POINTER DVDReaderT)),
     SetAttr ''dvd_open'' ''argtypes'' (TupleVal [POINTER c_char]),
     BindFunction ''dvd_open_stream'' ''_libdvdread'' ''DVDOpenStream'',
     SetAttr ''dvd_open_stream'' ''restype'' (TypeVal (POINTER DVDReaderT)),
     SetAttr ''dvd_open_stream'' ''argtypes'' (TupleVal [POINTER c_char, POINTER DVDReaderStreamCB]),
     BindFunction ''dvd_open2'' ''_libdvdread'' ''DVDOpen2'',
     SetAttr ''dvd_open2'' ''restype'' (TypeVal (POINTER DVDReaderT)),
     SetAttr ''dvd_open2'' ''argtypes'' (TupleVal [c_void_p, POINTER DVDLoggerCB, POINTER c_char]),
     BindFunction ''dvd_open_stream2'' ''_libdvdread'' ''DVDOpenStream2'',
     SetAttr ''dvd_open_stream2'' ''restype'' (TypeVal (POINTER DVDReaderT)),
     SetAttr ''dvd_open_stream2'' ''argtypes'' (TupleVal [c_void_p, POINTER DVDLoggerCB, POINTER DVDReaderStreamCB]),
     BindFunction ''dvd_close'' ''_libdvdread'' ''DVDClose'',
     SetAttr ''dvd_close'' ''restype'' NoneVal,
     SetAttr ''dvd_close'' ''argtypes'' (TupleVal [POINTER DVDReaderT]),
     BindFunction ''dvd_file_stat'' ''_libdvdread'' ''DVDFileStat'',
     SetAttr ''dvd_file_stat'' ''restype'' (TypeVal c_int),
     SetAttr ''dvd_file_stat'' ''argtypes'' (TupleVal [POINTER DVDReaderT, c_int, DVDReadDomainT, POINTER DVDStatT]),
     BindFunction ''dvd_open_file'' ''_libdvdread'' ''DVDOpenFile'',
     SetAttr ''dvd_open_file'' ''restype'' (TypeVal (POINTER DVDFileT)),
     SetAttr ''dvd_open_file'' ''argtypes'' (TupleVal [POINTER DVDReaderT, c_int, DVDReadDomainT]),
     BindFunction ''dvd_close_file'' ''_libdvdread'' ''DVDCloseFile'',
     SetAttr ''dvd_close_file'' ''restype'' NoneVal,
     SetAttr ''dvd_close_file'' ''argtypes'' (TupleVal [POINTER DVDFileT]),
     BindFunction ''dvd_read_blocks'' ''_libdvdread'' ''DVDReadBlocks'',
     SetAttr ''dvd_read_blocks'' ''restype'' (TypeVal c_ssize_t)]"

definition dvdread_part3 :: "stmt list" where
  "dvdread_part3 =
    [SetAttr ''dvd_read_blocks'' ''argtypes'' (TupleVal [POINTER DVDFileT, c_int, c_size_t, POINTER c_char]),
     BindFunction ''dvd_file_seek'' ''_libdvdread'' ''DVDFileSeek'',
     SetAttr ''dvd_file_seek'' ''restype'' (TypeVal c_int32),
     SetAttr ''dvd_file_seek'' ''argtypes'' (TupleVal [POINTER DVDFileT, c_int32]),
     BindFunction ''dvd_read_bytes'' ''_libdvdread'' ''DVDReadBytes'',
     SetAttr ''dvd_read_bytes'' ''restype'' (TypeVal c_ssize_t),
     SetAttr ''dvd_read_bytes'' ''argtypes'' (TupleVal [POINTER DVDFileT, c_void_p, c_size_t]),
     BindFunction ''dvd_file_size'' ''_libdvdread'' ''DVDFileSize'',
     SetAttr ''dvd_file_size'' ''restype'' (TypeVal c_ssize_t),
     SetAttr ''dvd_file_size'' ''argtypes'' (TupleVal [POINTER DVDFileT]),
     BindFunction ''dvd_disc_id'' ''_libdvdread'' ''DVDDiscID'',
     SetAttr ''dvd_disc_id'' ''restype'' (TypeVal c_int),
     SetAttr ''dvd_disc_id'' ''argtypes'' (TupleVal [POINTER DVDReaderT, POINTER c_ubyte]),
     BindFunction ''dvd_volume_info'' ''_libdvdread'' ''DVDUDFVolumeInfo'',
     SetAttr ''dvd_volume_info'' ''restype'' (TypeVal c_int),
     SetAttr ''dvd_volume_info'' ''argtypes'' (TupleVal [POINTER DVDReaderT, POINTER c_char, c_uint, POINTER c_ubyte, c_uint]),
     BindFunction ''dvd_file_seek_force'' ''_libdvdread'' ''DVDFileSeekForce'',
     SetAttr ''dvd_file_seek_force'' ''restype'' (TypeVal c_int),
     SetAttr ''dvd_file_seek_force'' ''argtypes'' (TupleVal [POINTER DVDFileT, c_int, c_int]),
     BindFunction ''dvd_iso_volume_info'' ''_libdvdread'' ''DVDISOVolumeInfo'',
     SetAttr ''dvd_iso_volume_info'' ''restype'' (TypeVal c_int),
     SetAttr ''dvd_iso_volume_info'' ''argtypes'' (TupleVal [POINTER DVDReaderT, POINTER c_char, c_uint, POINTER c_ubyte, c_uint]),
     BindFunction ''dvd_udf_cache_level'' ''_libdvdread'' ''DVDUDFCacheLevel'',
     SetAttr ''dvd_udf_cache_level'' ''restype'' (TypeVal c_int),
     SetAttr ''dvd_udf_cache_level'' ''argtypes'' (TupleVal [POINTER DVDReaderT, c_int]),
     BindFunction ''udf_find_file'' ''_libdvdread'' ''UDFFindFile'',
     SetAttr ''udf_find_file'' ''restype'' (TypeVal c_uint32),
     SetAttr ''udf_find_file'' ''argtypes'' (TupleVal [POINTER DVDReaderT, POINTER c_char, POINTER c_uint32]),
     BindFunction ''udf_get_volume_identifier'' ''_libdvdread'' ''UDFGetVolumeIdentifier'',
     SetAttr ''udf_get_volume_identifier'' ''restype'' (TypeVal c_int),
     SetAttr ''udf_get_volume_identifier'' ''argtypes'' (TupleVal [POINTER DVDReaderT, POINTER c_char, c_uint]),
     BindFunction ''udf_get_volume_set_identifier'' ''_libdvdread'' ''UDFGetVolumeSetIdentifier'',
     SetAttr ''udf_get_volume_set_identifier'' ''restype'' (TypeVal c_int),
     SetAttr ''udf_get_volume_set_identifier'' ''argtypes'' (TupleVal [POINTER DVDReaderT, POINTER c_uint8, c_uint]),
     ClassStmt ''_DVDTimeT'' Structure (Some DVDTimeT_fields),
     ClassStmt ''_VMCmdT'' Structure (Some VMCmdT_fields),
     ClassStmt ''_VideoAttrT'' Structure (Some VideoAttrT_fields),
     ClassStmt ''_AudioAttrT._AppInfo._Karaoke'' Structure (Some AudioAttrT_AppInfo_Karaoke_fields),
     ClassStmt ''_AudioAttrT._AppInfo._Surround'' Structure (Some AudioAttrT_AppInfo_Surround_fields),
     ClassStmt ''_AudioAttrT._AppInfo'' Union (Some AudioAttrT_AppInfo_fields)]"

definition dvdread_part4 :: "stmt list" where
  "dvdread_part4 =
    [ClassStmt ''_AudioAttrT'' Structure (Some AudioAttrT_fields),
     ClassStmt ''_MultichannelExtT'' Structure (Some MultichannelExtT_fields),
     ClassStmt ''_SubPAttrT'' Structure (Some SubPAttrT_fields),
     ClassStmt ''_PGCCommandTblT'' Structure (Some PGCCommandTblT_fields),
     ClassStmt ''_CellPlaybackT'' Structure (Some CellPlaybackT_fields),
     ClassStmt ''_CellPositionT'' Structure (Some CellPositionT_fields),
     ClassStmt ''_UserOpsT'' Structure (Some UserOpsT_fields),
     ClassStmt ''_PGCT'' Structure (Some PGCT_fields),
     ClassStmt ''_PGCISrPT'' Structure (Some PGCISrPT_fields),
     ClassStmt ''_PGCITT'' Structure (Some PGCITT_fields),
     ClassStmt ''_PGCILUT'' Structure (Some PGCILUT_fields),
     ClassStmt ''_PGCIUTT'' Structure (Some PGCIUTT_fields),
     ClassStmt ''_CellAdrT'' Structure (Some CellAdrT_fields),
     ClassStmt ''_CAdTT'' Structure (Some CAdTT_fields),
     ClassStmt ''_VOBUAdMapT'' Structure (Some VOBUAdMapT_fields),
     ClassStmt ''_VMGIMatT'' Structure (Some VMGIMatT_fields),
     ClassStmt ''_PlaybackTypeT'' Structure (Some PlaybackTypeT_fields),
     ClassStmt ''_TitleInfoT'' Structure (Some TitleInfoT_fields),
     ClassStmt ''_TtSrPTT'' Structure (Some TtSrPTT_fields),
     ClassStmt ''_PtlMaITCountryT'' Structure (Some PtlMaITCountryT_fields),
     ClassStmt ''_PtlMaITT'' Structure (Some PtlMaITT_fields),
     ClassStmt ''_VTSAttributesT'' Structure (Some VTSAttributesT_fields),
     ClassStmt ''_VTSAtrTT'' Structure (Some VTSAtrTT_fields),
     ClassStmt ''_TxtDtT'' Structure (Some TxtDtT_fields),
     ClassStmt ''_TxtDtLUT'' Structure (Some TxtDtLUT_fields),
     ClassStmt ''_TxtDtMgIT'' Structure (Some TxtDtMgIT_fields),
     ClassStmt ''_VTSIMaTT'' Structure (Some VTSIMaTT_fields),
     ClassStmt ''_PtTInfoT'' Structure (Some PtTInfoT_fields),
     ClassStmt ''_TTUT'' Structure (Some TTUT_fields),
     ClassStmt ''_VTSPtTSrPTT'' Structure (Some VTSPtTSrPTT_fields),
     ClassStmt ''_VTSTMapT'' Structure (Some VTSTMapT_fields),
     ClassStmt ''_VTSTMapTT'' Structure (Some VTSTMapTT_fields),
     ClassStmt ''_IFOHandleT'' Structure (Some IFOHandleT_fields),
     BindFunction ''ifo_print'' ''_libdvdread'' ''ifo_print'',
     SetAttr ''ifo_print'' ''restype'' NoneVal,
     SetAttr ''ifo_print'' ''argtypes'' (TupleVal [POINTER DVDReaderT, c_int]),
     BindFunction ''dvdread_print_time'' ''_libdvdread'' ''dvdread_print_time'',
     SetAttr ''dvdread_print_time'' ''restype'' NoneVal,
     SetAttr ''dvdread_print_time'' ''argtypes'' (TupleVal [POINTER DVDTimeT]),
     BindFunction ''ifo_open'' ''_libdvdread'' ''ifoOpen'']"

definition dvdread_part5 :: "stmt list" where
  "dvdread_part5 =
    [SetAttr ''ifo_open'' ''restype'' (TypeVal (POINTER IFOHandleT)),
     SetAttr ''ifo_open'' ''argtypes'' (TupleVal [POINTER DVDReaderT, c_int]),
     BindFunction ''ifo_open_vmgi'' ''_libdvdread'' ''ifoOpenVMGI'',
     SetAttr ''ifo_open_vmgi'' ''restype'' (TypeVal (POINTER IFOHandleT)),
     SetAttr ''ifo_open_vmgi'' ''argtypes'' (TupleVal [POINTER DVDReaderT]),
     BindFunction ''ifo_open_vtsi'' ''_libdvdread'' ''ifoOpenVTSI'',
     SetAttr ''ifo_open_vtsi'' ''restype'' (TypeVal (POINTER IFOHandleT)),
     SetAttr ''ifo_open_vtsi'' ''argtypes'' (TupleVal [POINTER DVDReaderT, c_int]),
     BindFunction ''ifo_close'' ''_libdvdread'' ''ifoClose'',
     SetAttr ''ifo_close'' ''restype'' NoneVal,
     SetAttr ''ifo_close'' ''argtypes'' (TupleVal [POINTER IFOHandleT]),
     BindFunction ''ifo_read_ptl_mait'' ''_libdvdread'' ''ifoRead_PTL_MAIT'',
     SetAttr ''ifo_read_ptl_mait'' ''restype'' (TypeVal c_int),
     SetAttr ''ifo_read_ptl_mait'' ''argtypes'' (TupleVal [POINTER IFOHandleT]),
     BindFunction ''ifo_read_vts_atrt'' ''_libdvdread'' ''ifoRead_VTS_ATRT'',
     SetAttr ''ifo_read_vts_atrt'' ''restype'' (TypeVal c_int),
     SetAttr ''ifo_read_vts_atrt'' ''argtypes'' (TupleVal [POINTER IFOHandleT]),
     BindFunction ''ifo_read_tt_srpt'' ''_libdvdread'' ''ifoRead_TT_SRPT'',
     SetAttr ''ifo_read_tt_srpt'' ''restype'' (TypeVal c_int),
     SetAttr ''ifo_read_tt_srpt'' ''argtypes'' (TupleVal [POINTER IFOHandleT]),
     BindFunction ''ifo_read_vts_ptt_srpt'' ''_libdvdread'' ''ifoRead_VTS_PTT_SRPT'',
     SetAttr ''ifo_read_vts_ptt_srpt'' ''restype'' (TypeVal c_int),
     SetAttr ''ifo_read_vts_ptt_srpt'' ''argtypes'' (TupleVal [POINTER IFOHandleT]),
     BindFunction ''ifo_read_fp_pgc'' ''_libdvdread'' ''ifoRead_FP_PGC'',
     SetAttr ''ifo_read_fp_pgc'' ''restype'' (TypeVal c_int),
     SetAttr ''ifo_read_fp_pgc'' ''argtypes'' (TupleVal [POINTER IFOHandleT]),
     BindFunction ''ifo_read_pgcit'' ''_libdvdread'' ''ifoRead_PGCIT'',
     SetAttr ''ifo_read_pgcit'' ''restype'' (TypeVal c_int),
     SetAttr ''ifo_read_pgcit'' ''argtypes'' (TupleVal [POINTER IFOHandleT]),
     BindFunction ''ifo_read_pgci_ut'' ''_libdvdread'' ''ifoRead_PGCI_UT'',
     SetAttr ''ifo_read_pgci_ut'' ''restype'' (TypeVal c_int),
     SetAttr ''ifo_read_pgci_ut'' ''argtypes'' (TupleVal [POINTER IFOHandleT]),
     BindFunction ''ifo_read_vts_tmapt'' ''_libdvdread'' ''ifoRead_VTS_TMAPT'',
     SetAttr ''ifo_read_vts_tmapt'' ''restype'' (TypeVal c_int),
     SetAttr ''ifo_read_vts_tmapt'' ''argtypes'' (TupleVal [POINTER IFOHandleT]),
     BindFunction ''ifo_read_c_adt'' ''_libdvdread'' ''ifoRead_C_ADT'',
     SetAttr ''ifo_read_c_adt'' ''restype'' (TypeVal c_int),
     SetAttr ''ifo_read_c_adt'' ''argtypes'' (TupleVal [POINTER IFOHandleT]),
     BindFunction ''ifo_read_title_c_adt'' ''_libdvdread'' ''ifoRead_TITLE_C_ADT'',
     SetAttr ''ifo_read_title_c_adt'' ''restype'' (TypeVal c_int)]"

definition dvdread_part6 :: "stmt list" where
  "dvdread_part6 =
    [SetAttr ''ifo_read_title_c_adt'' ''argtypes'' (TupleVal [POINTER IFOHandleT]),
     BindFunction ''ifo_read_vobu_admap'' ''_libdvdread'' ''ifoRead_VOBU_ADMAP'',
     SetAttr ''ifo_read_vobu_admap'' ''restype'' (TypeVal c_int),
     SetAttr ''ifo_read_vobu_admap'' ''argtypes'' (TupleVal [POINTER IFOHandleT]),
     BindFunction ''ifo_read_title_vobu_admap'' ''_libdvdread'' ''ifoRead_TITLE_VOBU_ADMAP'',
     SetAttr ''ifo_read_title_vobu_admap'' ''restype'' (TypeVal c_int),
     SetAttr ''ifo_read_title_vobu_admap'' ''argtypes'' (TupleVal [POINTER IFOHandleT]),
     BindFunction ''ifo_read_txtdt_mgi'' ''_libdvdread'' ''ifoRead_TXTDT_MGI'',
     SetAttr ''ifo_read_txtdt_mgi'' ''restype'' (TypeVal c_int),
     SetAttr ''ifo_read_txtdt_mgi'' ''argtypes'' (TupleVal [POINTER IFOHandleT]),
     BindFunction ''ifo_free_ptl_mait'' ''_libdvdread'' ''ifoFree_PTL_MAIT'',
     SetAttr ''ifo_free_ptl_mait'' ''restype'' NoneVal,
     SetAttr ''ifo_free_ptl_mait'' ''argtypes'' (TupleVal [POINTER IFOHandleT]),
     BindFunction ''ifo_free_vts_atrt'' ''_libdvdread'' ''ifoFree_VTS_ATRT'',
     SetAttr ''ifo_free_vts_atrt'' ''restype'' NoneVal,
     SetAttr ''ifo_free_vts_atrt'' ''argtypes'' (TupleVal [POINTER IFOHandleT]),
     BindFunction ''ifo_free_tt_srpt'' ''_libdvdread'' ''ifoFree_TT_SRPT'',
     SetAttr ''ifo_free_tt_srpt'' ''restype'' NoneVal,
     SetAttr ''ifo_free_tt_srpt'' ''argtypes'' (TupleVal [POINTER IFOHandleT]),
     BindFunction ''ifo_free_vts_ptt_srpt'' ''_libdvdread'' ''ifoFree_VTS_PTT_SRPT'',
     SetAttr ''ifo_free_vts_ptt_srpt'' ''restype'' NoneVal,
     SetAttr ''ifo_free_vts_ptt_srpt'' ''argtypes'' (TupleVal [POINTER IFOHandleT]),
     BindFunction ''ifo_free_fp_pgc'' ''_libdvdread'' ''ifoFree_FP_PGC'',
     SetAttr ''ifo_free_fp_pgc'' ''restype'' NoneVal,
     SetAttr ''ifo_free_fp_pgc'' ''argtypes'' (TupleVal [POINTER IFOHandleT]),
     BindFunction ''ifo_free_pgcit'' ''_libdvdread'' ''ifoFree_PGCIT'',
     SetAttr ''ifo_free_pgcit'' ''restype'' NoneVal,
     SetAttr ''ifo_free_pgcit'' ''argtypes'' (TupleVal [POINTER IFOHandleT]),
     BindFunction ''ifo_free_pgci_ut'' ''_libdvdread'' ''ifoFree_PGCI_UT'',
     SetAttr ''ifo_free_pgci_ut'' ''restype'' NoneVal,
     SetAttr ''ifo_free_pgci_ut'' ''argtypes'' (TupleVal [POINTER IFOHandleT]),
     BindFunction ''ifo_free_vts_tmapt'' ''_libdvdread'' ''ifoFree_VTS_TMAPT'',
     SetAttr ''ifo_free_vts_tmapt'' ''restype'' NoneVal,
     SetAttr ''ifo_free_vts_tmapt'' ''argtypes'' (TupleVal [POINTER IFOHandleT]),
     BindFunction ''ifo_free_c_adt'' ''_libdvdread'' ''ifoFree_C_ADT'',
     SetAttr ''ifo_free_c_adt'' ''restype'' NoneVal,
     SetAttr ''ifo_free_c_adt'' ''argtypes'' (TupleVal [POINTER IFOHandleT]),
     BindFunction ''ifo_free_title_c_adt'' ''_libdvdread'' ''ifoFree_TITLE_C_ADT'',
     SetAttr ''ifo_free_title_c_adt'' ''restype'' NoneVal,
     SetAttr ''ifo_free_title_c_adt'' ''argtypes'' (TupleVal [POINTER IFOHandleT])]"

definition dvdread_part7 :: "stmt list" where
  "dvdread_part7 =
    [BindFunction ''ifo_free_vobu_admap'' ''_libdvdread'' ''ifoFree_VOBU_ADMAP'',
     SetAttr ''ifo_free_vobu_admap'' ''restype'' NoneVal,
     SetAttr ''ifo_free_vobu_admap'' ''argtypes'' (TupleVal [POINTER IFOHandleT]),
     BindFunction ''ifo_free_title_vobu_admap'' ''_libdvdread'' ''ifoFree_TITLE_VOBU_ADMAP'',
     SetAttr ''ifo_free_title_vobu_admap'' ''restype'' NoneVal,
     SetAttr ''ifo_free_title_vobu_admap'' ''argtypes'' (TupleVal [POINTER IFOHandleT]),
     BindFunction ''ifo_free_txtdt_mgi'' ''_libdvdread'' ''ifoFree_TXTDT_MGI'',
     SetAttr ''ifo_free_txtdt_mgi'' ''restype'' NoneVal,
     SetAttr ''ifo_free_txtdt_mgi'' ''argtypes'' (TupleVal [POINTER IFOHandleT]),
     ClassStmt ''_PCIGIT'' Structure (Some PCIGIT_fields),
     ClassStmt ''_NSmlAglIT'' Structure (Some NSmlAglIT_fields),
     ClassStmt ''_HLGIT'' Structure (Some HLGIT_fields),
     ClassStmt ''_BtnColITT'' Structure (Some BtnColITT_fields),
     ClassStmt ''_BtnIT'' Structure (Some BtnIT_fields),
     ClassStmt ''_HLIT'' Structure (Some HLIT_fields),
     ClassStmt ''_PCIT'' Structure (Some PCIT_fields),
     ClassStmt ''_DSIGIT'' Structure (Some DSIGIT_fields),
     ClassStmt ''_SmlPBIT._VOBA'' Structure (Some SmlPBIT_VOBA_fields),
     ClassStmt ''_SmlPBIT'' Structure (Some SmlPBIT_fields),
     ClassStmt ''_SmlAglDataT'' Structure (Some SmlAglDataT_fields),
     ClassStmt ''_SmlAglIT'' Structure (Some SmlAglIT_fields),
     ClassStmt ''_VOBUSrIT'' Structure (Some VOBUSrIT_fields),
     ClassStmt ''_SyncIT'' Structure (Some SyncIT_fields),
     ClassStmt ''_DSIT'' Structure (Some DSIT_fields),
     BindFunction ''nav_print_pci'' ''_libdvdread'' ''navPrint_PCI'',
     SetAttr ''nav_print_pci'' ''restype'' NoneVal,
     SetAttr ''nav_print_pci'' ''argtypes'' (TupleVal [POINTER PCIT]),
     BindFunction ''nav_print_dsi'' ''_libdvdread'' ''navPrint_DSI'',
     SetAttr ''nav_print_dsi'' ''restype'' NoneVal,
     SetAttr ''nav_print_dsi'' ''argtypes'' (TupleVal [POINTER DSIT]),
     BindFunction ''nav_read_pci'' ''_libdvdread'' ''navRead_PCI'',
     SetAttr ''nav_read_pci'' ''restype'' NoneVal,
     SetAttr ''nav_read_pci'' ''argtypes'' (TupleVal [POINTER PCIT, POINTER c_ubyte]),
     BindFunction ''nav_read_dsi'' ''_libdvdread'' ''navRead_DSI'',
     SetAttr ''nav_read_dsi'' ''restype'' NoneVal,
     SetAttr ''nav_read_dsi'' ''argtypes'' (TupleVal [POINTER DSIT, POINTER c_ubyte]),
     AssignFields ''_DVDInputS'' DVDInputS_fields,
     AssignFields ''_DVDFileS'' DVDFileS_fields,
     AssignFields ''_DVDReaderS'' DVDReaderS_fields]"

text \<open>The statements of \<^verbatim>\<open>dvdread.py\<close> in source order.\<close>

definition dvdread_body :: "host \<Rightarrow> stmt list" where
  "dvdread_body h =
     dvdread_part1 h
     @ dvdread_part2
     @ dvdread_part3
     @ dvdread_part4
     @ dvdread_part5
     @ dvdread_part6
     @ dvdread_part7"

text \<open>The module first imports \<^verbatim>\<open>dvdcss\<close>; an exception raised there propagates.\<close>

definition import_dvdread :: "host \<Rightarrow> pystate \<Rightarrow> pystate result" where
  "import_dvdread h st =
     (case import_dvdcss h st of Inl e \<Rightarrow> Inl e | Inr st' \<Rightarrow> exec_all h (dvdread_body h) st')"

section \<open>dvdnav.py: bindings of libdvdnav\<close>

definition POSIX_DVDNAV_LIB :: string where
  "POSIX_DVDNAV_LIB = ''libdvdnav.so.4''"

definition WIN_DVDNAV_LIB :: "host \<Rightarrow> string" where
  "WIN_DVDNAV_LIB h = expandvars h ''%PROGRAMFILES%/VideoLAN/VLC/plugins/access/libdvdnav_plugin.dll''"

definition PThreadMutexT :: ctype where
  "PThreadMutexT = c_void_p"

definition READ_CACHE_CHUNKS :: nat where
  "READ_CACHE_CHUNKS = 10"

definition ReadCacheChunkS :: ctype where
  "ReadCacheChunkS = Class ''_ReadCacheChunkS''"

definition ReadCacheChunkS_fields :: "field list" where
  "ReadCacheChunkS_fields =
    [Field ''cache_buffer'' (POINTER c_uint8),
     Field ''cache_buffer_base'' (POINTER c_uint8),
     Field ''cache_start_sector'' c_int32,
     Field ''cache_read_count'' c_int32,
     Field ''cache_block_count'' c_size_t,
     Field ''cache_malloc_size'' c_size_t,
     Field ''cache_valid'' c_int,
     Field ''usage_count'' c_int]"

definition ReadCacheChunkT :: ctype where
  "ReadCacheChunkT = ReadCacheChunkS"

definition ReadCacheS :: ctype where
  "ReadCacheS = Class ''_ReadCacheS''"

definition ReadCacheS_fields :: "field list" where
  "ReadCacheS_fields =
    [Field ''chunk'' (Array ReadCacheChunkT READ_CACHE_CHUNKS),
     Field ''current'' c_int,
     Field ''freeing'' c_int,
     Field ''read_ahead_size'' c_uint32,
     Field ''read_ahead_incr'' c_int,
     Field ''last_sector'' c_int,
     Field ''lock'' PThreadMutexT]"

definition RegistersT :: ctype where
  "RegistersT = Class ''_RegistersT''"

definition RegistersT_fields :: "field list" where
  "RegistersT_fields =
    [Field ''SPRM'' (Array c_uint16 24),
     Field ''GPRM'' (Array c_uint16 16),
     Field ''GPRM_mode'' (Array c_uint8 16),
     Field ''GPRM_time'' (Array c_time_t 16)]"

definition DVDMenuIDT :: ctype where
  "DVDMenuIDT = c_int"

definition DVDNavStreamTypeT :: ctype where
  "DVDNavStreamTypeT = c_int"

definition DVDDomainT :: ctype where
  "DVDDomainT = c_int"

definition DVDNavHighlightAreaT :: ctype where
  "DVDNavHighlightAreaT = Class ''_DVDNavHighlightAreaT''"

definition DVDNavHighlightAreaT_fields :: "field list" where
  "DVDNavHighlightAreaT_fields =
    [Field ''palette'' c_uint32,
     Field ''sx'' c_uint16,
     Field ''sy'' c_uint16,
     Field ''ex'' c_uint16,
     Field ''ey'' c_uint16,
     Field ''pts'' c_uint32,
     Field ''buttonN'' c_uint32]"

definition DVDAudioFormatT :: ctype where
  "DVDAudioFormatT = c_int"

definition DVDUOPT :: ctype where
  "DVDUOPT = c_int"

definition DVDParentalLevelT :: ctype where
  "DVDParentalLevelT = c_int"

definition DVDLangIDT :: ctype where
  "DVDLangIDT = c_uint16"

definition DVDCountryIDT :: ctype where
  "DVDCountryIDT = c_uint16"

definition DVDRegisterT :: ctype where
  "DVDRegisterT = c_uint16"

definition DVDBoolT :: ctype where
  "DVDBoolT = c_int"

definition DVDGPRMArrayT :: ctype where
  "DVDGPRMArrayT = Array DVDRegisterT 16"

definition DVDSPRMArrayT :: ctype where
  "DVDSPRMArrayT = Array DVDRegisterT 24"

definition DVDStreamT :: ctype where
  "DVDStreamT = c_int"

definition DVDPTTT :: ctype where
  "DVDPTTT = c_int"

definition DVDTitleT :: ctype where
  "DVDTitleT = c_int"

definition DVDAngleT :: ctype where
  "DVDAngleT = c_int"

definition DVDTimecodeT :: ctype where
  "DVDTimecodeT = Class ''_DVDTimecodeT''"

definition DVDTimecodeT_fields :: "field list" where
  "DVDTimecodeT_fields =
    [Field ''Hours'' c_uint8,
     Field ''Minutes'' c_uint8,
     Field ''Seconds'' c_uint8,
     Field ''Frames'' c_uint8]"

definition DVDSubpictureStreamT :: ctype where
  "DVDSubpictureStreamT = c_int"

definition DVDAudioStreamT :: ctype where
  "DVDAudioStreamT = c_int"

definition DVDAudioAppModeT :: ctype where
  "DVDAudioAppModeT = c_int"

definition DVDAudioLangExtT :: ctype where
  "DVDAudioLangExtT = c_int"

definition DVDSubpictureLangExtT :: ctype where
  "DVDSubpictureLangExtT = c_int"

definition DVDKaraokeDownmixT :: ctype where
  "DVDKaraokeDownmixT = c_int"

definition DVDKaraokeDownmixMaskT :: ctype where
  "DVDKaraokeDownmixMaskT = c_int"

definition DVDDisplayModeT :: ctype where
  "DVDDisplayModeT = c_int"

definition DVDAudioAttributesT :: ctype where
  "DVDAudioAttributesT = Class ''_DVDAudioAttributesT''"

definition DVDAudioSampleFreqT :: ctype where
  "DVDAudioSampleFreqT = c_int"

definition DVDAudioSampleQuantT :: ctype where
  "DVDAudioSampleQuantT = c_int"

definition DVDChannelNumberT :: ctype where
  "DVDChannelNumberT = c_int"

definition DVDAudioAttributesT_fields :: "field list" where
  "DVDAudioAttributesT_fields =
    [Field ''AppMode'' DVDAudioAppModeT,
     Field ''AudioFormat'' DVDAudioFormatT,
     Field ''Language'' DVDLangIDT,
     Field ''LanguageExtension'' DVDAudioLangExtT,
     Field ''HasMultichannelInfo'' DVDBoolT,
     Field ''SampleFrequency'' DVDAudioSampleFreqT,
     Field ''SampleQuantization'' DVDAudioSampleQuantT,
     Field ''NumberOfChannels'' DVDChannelNumberT]"

definition DVDSubpictureTypeT :: ctype where
  "DVDSubpictureTypeT = c_int"

definition DVDSubpictureCodingT :: ctype where
  "DVDSubpictureCodingT = c_int"

definition DVDSubpictureAttributesT :: ctype where
  "DVDSubpictureAttributesT = c_int"

definition DVDVideoAttributesT :: ctype where
  "DVDVideoAttributesT = Class ''_DVDVideoAttributesT''"

definition DVDVideoCompressionT :: ctype where
  "DVDVideoCompressionT = c_int"

definition DVDVideoAttributesT_fields :: "field list" where
  "DVDVideoAttributesT_fields =
    [Field ''PanscanPermitted'' DVDBoolT,
     Field ''LetterboxPermitted'' DVDBoolT,
     Field ''AspectX'' c_int,
     Field ''AspectY'' c_int,
     Field ''FrameRate'' c_int,
     Field ''FrameHeight'' c_int,
     Field ''Compression'' DVDVideoCompressionT,
     Field ''Line21Field1InGop'' DVDBoolT,
     Field ''Line21Field2InGop'' DVDBoolT,
     Field ''more_to_come'' c_int]"

definition DVDStateT :: ctype where
  "DVDStateT = Class ''_DVDStateT''"

definition DVDStateT_fields :: "field list" where
  "DVDStateT_fields =
    [Field ''registers'' RegistersT,
     Field ''domain'' DVDDomainT,
     Field ''vtsN'' c_int,
     Field ''pgc'' (POINTER PGCT),
     Field ''pgcN'' c_int,
     Field ''pgN'' c_int,
     Field ''cellN'' c_int,
     Field ''cell_restart'' c_int32,
     Field ''blockN'' c_int,
     Field ''rsm_vtsN'' c_int,
     Field ''rsm_blockN'' c_int,
     Field ''rsm_regs'' (Array c_uint16 5),
     Field ''rsm_pgcN'' c_int,
     Field ''rsm_cellN'' c_int]"

definition VMPositionS :: ctype where
  "VMPositionS = Class ''_VMPositionS''"

definition VMPositionS_fields :: "field list" where
  "VMPositionS_fields =
    [Field ''button'' c_int16,
     Field ''vts'' c_int32,
     Field ''domain'' DVDDomainT,
     Field ''spu_channel'' c_int32,
     Field ''angle_channel'' c_int32,
     Field ''audio_channel'' c_int32,
     Field ''hop_channel'' c_int32,
     Field ''title'' c_int32,
     Field ''chapter'' c_int32,
     Field ''cell'' c_int32,
     Field ''cell_restart'' c_int32,
     Field ''cell_start'' c_int32,
     Field ''still'' c_int32,
     Field ''block'' c_int32]"

definition VMPositionT :: ctype where
  "VMPositionT = VMPositionS"

definition VMT :: ctype where
  "VMT = Class ''_VMT''"

definition MAX_ERR_LEN :: nat where
  "MAX_ERR_LEN = 255"

definition ReadCacheT :: ctype where
  "ReadCacheT = ReadCacheS"

definition DVDNavVOBUS :: ctype where
  "DVDNavVOBUS = Class ''_DVDNavVOBUS''"

definition DVDNavVOBUS_fields :: "field list" where
  "DVDNavVOBUS_fields =
    [Field ''vobu_start'' c_int32,
     Field ''vobu_length'' c_int32,
     Field ''blockN'' c_int32,
     Field ''vobu_next'' c_int32]"

definition DVDNavS :: ctype where
  "DVDNavS = Class ''_DVDNavS''"

definition DVDNavT :: ctype where
  "DVDNavT = DVDNavS"

definition DVDNavStatusT :: ctype where
  "DVDNavStatusT = c_int32"

definition DVDNavStreamCB :: ctype where
  "DVDNavStreamCB = DVDReaderStreamCB"

definition DVDNavLoggerLevelT :: ctype where
  "DVDNavLoggerLevelT = c_int"

definition DVDNavLoggerCB :: ctype where
  "DVDNavLoggerCB = Class ''_DVDNavLoggerCB''"

definition DVDNavLoggerCB_fields :: "field list" where
  "DVDNavLoggerCB_fields =
    [Field ''pf_log'' (CFUNCTYPE c_void_p [c_void_p, DVDNavLoggerLevelT, POINTER c_char])]"

definition DVDNavVOBUT :: ctype where
  "DVDNavVOBUT = DVDNavVOBUS"

definition VMT_fields :: "field list" where
  "VMT_fields =
    [Field ''priv'' c_void_p,
     Field ''logcb'' DVDNavLoggerCB,
     Field ''streamcb'' DVDNavStreamCB,
     Field ''videolanlibdvd'' (POINTER DVDReaderT),
     Field ''dvdstreamcb'' DVDReaderStreamCB,
     Field ''vmgi'' (POINTER IFOHandleT),
     Field ''vtsi'' (POINTER IFOHandleT),
     Field ''state'' DVDStateT,
     Field ''hop_channel'' c_int32,
     Field ''dvd_name'' (Array c_char 50),
     Field ''dvd_serial'' (Array c_char 15),
     Field ''stopped'' c_int]"

definition DVDNavS_fields :: "field list" where
  "DVDNavS_fields =
    [Field ''path'' (POINTER c_char),
     Field ''file'' (POINTER DVDFileT),
     Field ''position_next'' VMPositionT,
     Field ''position_current'' VMPositionT,
     Field ''vobu'' DVDNavVOBUT,
     Field ''pci'' PCIT,
     Field ''dsi'' DSIT,
     Field ''last_cmd_nav_lbn'' c_uint32,
     Field ''skip_still'' c_int,
     Field ''sync_wait'' c_int,
     Field ''sync_wait_skip'' c_int,
     Field ''spu_clut_changed'' c_int,
     Field ''spu_clut_changed'' c_int,
     Field ''started'' c_int,
     Field ''use_read_ahead'' c_int,
     Field ''pgc_based'' c_int,
     Field ''cur_cell_time'' c_int,
     Field ''vm'' (POINTER VMT),
     Field ''vm_lock'' PThreadMutexT,
     Field ''priv'' c_void_p,
     Field ''logcb'' DVDNavLoggerCB,
     Field ''cache'' (POINTER ReadCacheT),
     Field ''err_str'' (Array c_char MAX_ERR_LEN)]"

definition DVDNavStillEventT :: ctype where
  "DVDNavStillEventT = Class ''_DVDNavStillEventT''"

definition DVDNavStillEventT_fields :: "field list" where
  "DVDNavStillEventT_fields =
    [Field ''length'' c_int]"

definition DVDNavSPUStreamChangeEventT :: ctype where
  "DVDNavSPUStreamChangeEventT = Class ''_DVDNavSPUStreamChangeEventT''"

definition DVDNavSPUStreamChangeEventT_fields :: "field list" where
  "DVDNavSPUStreamChangeEventT_fields =
    [Field ''physical_wide'' c_int,
     Field ''physical_letterbox'' c_int,
     Field ''physical_pan_scan'' c_int,
     Field ''logical'' c_int]"

definition DVDNavAudioStreamChangeEventT :: ctype where
  "DVDNavAudioStreamChangeEventT = Class ''_DVDNavAudioStreamChangeEventT''"

definition DVDNavAudioStreamChangeEventT_fields :: "field list" where
  "DVDNavAudioStreamChangeEventT_fields =
    [Field ''physical'' c_int,
     Field ''logical'' c_int]"

definition DVDNavVTSChangeEventT :: ctype where
  "DVDNavVTSChangeEventT = Class ''_DVDNavVTSChangeEventT''"

definition DVDNavVTSChangeEventT_fields :: "field list" where
  "DVDNavVTSChangeEventT_fields =
    [Field ''old_vtsN'' c_int,
     Field ''old_domain'' DVDDomainT,
     Field ''new_vtsN'' c_int,
     Field ''new_domain'' DVDDomainT]"

definition DVDNavCellChangeEventT :: ctype where
  "DVDNavCellChangeEventT = Class ''_DVDNavCellChangeEventT''"

definition DVDNavCellChangeEventT_fields :: "field list" where
  "DVDNavCellChangeEventT_fields =
    [Field ''cellN'' c_int,
     Field ''pgN'' c_int,
     Field ''cell_length'' c_int64,
     Field ''pg_length'' c_int64,
     Field ''pgc_length'' c_int64,
     Field ''cell_start'' c_int64,
     Field ''pg_start'' c_int64]"

definition DVDNavHighlightEventT :: ctype where
  "DVDNavHighlightEventT = Class ''_DVDNavHighlightEventT''"

definition DVDNavHighlightEventT_fields :: "field list" where
  "DVDNavHighlightEventT_fields =
    [Field ''display'' c_int,
     Field ''palette'' c_uint32,
     Field ''sx'' c_uint16,
     Field ''sy'' c_uint16,
     Field ''ex'' c_uint16,
     Field ''ey'' c_uint16,
     Field ''pts'' c_uint32,
     Field ''buttonN'' c_uint32]"

definition dvdnav_part1 :: "host \<Rightarrow> stmt list" where
  "dvdnav_part1 h =
     (if os_name h = ''posix'' then [LoadLibrary ''_libdvdnav'' POSIX_DVDNAV_LIB]
      else if os_name h = ''nt'' then [LoadLibrary ''_libdvdnav'' (WIN_DVDNAV_LIB h)]
      else [Raise (RuntimeError (''Unsupported operating system '' @ os_name h @ ''. '' @ ''This is almost certainly a bug.''))])"

definition dvdnav_part2 :: "stmt list" where
  "dvdnav_part2 =
    [ClassStmt ''_ReadCacheChunkS'' Structure (Some ReadCacheChunkS_fields),
     ClassStmt ''_ReadCacheS'' Structure None,
     AssignFields ''_ReadCacheS'' ReadCacheS_fields,
     ClassStmt ''_RegistersT'' Structure (Some RegistersT_fields),
     ClassStmt ''_DVDNavHighlightAreaT'' Structure (Some DVDNavHighlightAreaT_fields),
     ClassStmt ''_DVDTimecodeT'' Structure (Some DVDTimecodeT_fields),
     ClassStmt ''_DVDAudioAttributesT'' Structure None,
     AssignFields ''_DVDAudioAttributesT'' DVDAudioAttributesT_fields,
     ClassStmt ''_DVDVideoAttributesT'' Structure None,
     AssignFields ''_DVDVideoAttributesT'' DVDVideoAttributesT_fields,
     ClassStmt ''_DVDStateT'' Structure (Some DVDStateT_fields),
     ClassStmt ''_VMPositionS'' Structure (Some VMPositionS_fields),
     ClassStmt ''_VMT'' Structure None,
     ClassStmt ''_DVDNavVOBUS'' Structure (Some DVDNavVOBUS_fields),
     ClassStmt ''_DVDNavS'' Structure None,
     ClassStmt ''_DVDNavLoggerCB'' Structure None,
     AssignFields ''_DVDNavLoggerCB'' DVDNavLoggerCB_fields,
     BindFunction ''dvdnav_open'' ''_libdvdnav'' ''dvdnav_open'',
     SetAttr ''dvdnav_open'' ''restype'' (TypeVal DVDNavStatusT),
     SetAttr ''dvdnav_open'' ''argtypes'' (TupleVal [POINTER (POINTER DVDNavT), POINTER c_char]),
     BindFunction ''dvdnav_open_stream'' ''_libdvdnav'' ''dvdnav_open_stream'',
     SetAttr ''dvdnav_open_stream'' ''restype'' (TypeVal DVDNavStatusT),
     SetAttr ''dvdnav_open_stream'' ''argtypes'' (TupleVal [POINTER (POINTER DVDNavT), c_void_p, POINTER DVDNavStreamCB]),
     BindFunction ''dvdnav_open2'' ''_libdvdnav'' ''dvdnav_open2'',
     SetAttr ''dvdnav_open2'' ''restype'' (TypeVal DVDNavStatusT),
     SetAttr ''dvdnav_open2'' ''argtypes'' (TupleVal [POINTER (POINTER DVDNavT), c_void_p, POINTER DVDNavLoggerCB, POINTER c_char]),
     BindFunction ''dvdnav_open_stream2'' ''_libdvdnav'' ''dvdnav_open_stream2'',
     SetAttr ''dvdnav_open_stream2'' ''restype'' (TypeVal DVDNavStatusT),
     SetAttr ''dvdnav_open_stream2'' ''argtypes'' (TupleVal [POINTER (POINTER DVDNavT), c_void_p, POINTER DVDNavLoggerCB, POINTER DVDNavStreamCB]),
     BindFunction ''dvdnav_dup'' ''_libdvdnav'' ''dvdnav_dup'',
     SetAttr ''dvdnav_dup'' ''restype'' (TypeVal DVDNavStatusT),
     SetAttr ''dvdnav_dup'' ''argtypes'' (TupleVal [POINTER (POINTER DVDNavT), POINTER DVDNavT]),
     BindFunction ''dvdnav_free_dup'' ''_libdvdnav'' ''dvdnav_free_dup'',
     SetAttr ''dvdnav_free_dup'' ''restype'' (TypeVal DVDNavStatusT),
     SetAttr ''dvdnav_free_dup'' ''argtypes'' (TupleVal [POINTER DVDNavT]),
     BindFunction ''dvdnav_close'' ''_libdvdnav'' ''dvdnav_close'',
     SetAttr ''dvdnav_close'' ''restype'' (TypeVal DVDNavStatusT),
     SetAttr ''dvdnav_close'' ''argtypes'' (TupleVal [POINTER DVDNavT]),
     BindFunction ''dvdnav_reset'' ''_libdvdnav'' ''dvdnav_reset'',
     SetAttr ''dvdnav_reset'' ''restype'' (TypeVal DVDNavStatusT)]"

definition dvdnav_part3 :: "stmt list" where
  "dvdnav_part3 =
    [SetAttr ''dvdnav_reset'' ''argtypes'' (TupleVal [POINTER DVDNavT]),
     BindFunction ''dvdnav_path'' ''_libdvdnav'' ''dvdnav_path'',
     SetAttr ''dvdnav_path'' ''restype'' (TypeVal DVDNavStatusT),
     SetAttr ''dvdnav_path'' ''argtypes'' (TupleVal [POINTER DVDNavT, POINTER (POINTER c_char)]),
     BindFunction ''dvdnav_err_to_string'' ''_libdvdnav'' ''dvdnav_err_to_string'',
     SetAttr ''dvdnav_err_to_string'' ''restype'' (TypeVal (POINTER c_char)),
     SetAttr ''dvdnav_err_to_string'' ''argtypes'' (TupleVal [POINTER DVDNavT]),
     BindFunction ''dvdnav_version'' ''_libdvdnav'' ''dvdnav_version'',
     SetAttr ''dvdnav_version'' ''restype'' (TypeVal (POINTER c_char)),
     BindFunction ''dvdnav_set_region_mask'' ''_libdvdnav'' ''dvdnav_set_region_mask'',
     SetAttr ''dvdnav_set_region_mask'' ''restype'' (TypeVal DVDNavStatusT),
     SetAttr ''dvdnav_set_region_mask'' ''argtypes'' (TupleVal [POINTER DVDNavT, c_int32]),
     BindFunction ''dvdnav_get_region_mask'' ''_libdvdnav'' ''dvdnav_get_region_mask'',
     SetAttr ''dvdnav_get_region_mask'' ''restype'' (TypeVal DVDNavStatusT),
     SetAttr ''dvdnav_get_region_mask'' ''argtypes'' (TupleVal [POINTER DVDNavT, POINTER c_int32]),
     BindFunction ''dvdnav_set_readahead_flag'' ''_libdvdnav'' ''dvdnav_set_readahead_flag'',
     SetAttr ''dvdnav_set_readahead_flag'' ''restype'' (TypeVal DVDNavStatusT),
     SetAttr ''dvdnav_set_readahead_flag'' ''argtypes'' (TupleVal [POINTER DVDNavT, c_int32]),
     BindFunction ''dvdnav_get_readahead_flag'' ''_libdvdnav'' ''dvdnav_get_readahead_flag'',
     SetAttr ''dvdnav_get_readahead_flag'' ''restype'' (TypeVal DVDNavStatusT),
     SetAttr ''dvdnav_get_readahead_flag'' ''argtypes'' (TupleVal [POINTER DVDNavT, POINTER c_int32]),
     BindFunction ''dvdnav_set_pgc_positioning_flag'' ''_libdvdnav'' ''dvdnav_set_PGC_positioning_flag'',
     SetAttr ''dvdnav_set_pgc_positioning_flag'' ''restype'' (TypeVal DVDNavStatusT),
     SetAttr ''dvdnav_set_pgc_positioning_flag'' ''argtypes'' (TupleVal [POINTER DVDNavT, c_int32]),
     BindFunction ''dvdnav_get_pgc_positioning_flag'' ''_libdvdnav'' ''dvdnav_get_PGC_positioning_flag'',
     SetAttr ''dvdnav_get_pgc_positioning_flag'' ''restype'' (TypeVal DVDNavStatusT),
     SetAttr ''dvdnav_get_pgc_positioning_flag'' ''argtypes'' (TupleVal [POINTER DVDNavT, POINTER c_int32]),
     BindFunction ''dvdnav_get_next_block'' ''_libdvdnav'' ''dvdnav_get_next_block'',
     SetAttr ''dvdnav_get_next_block'' ''restype'' (TypeVal DVDNavStatusT),
     SetAttr ''dvdnav_get_next_block'' ''argtypes'' (TupleVal [POINTER DVDNavT, POINTER c_uint8, POINTER c_int32, POINTER c_int32]),
     BindFunction ''dvdnav_get_next_cache_block'' ''_libdvdnav'' ''dvdnav_get_next_cache_block'',
     SetAttr ''dvdnav_get_next_cache_block'' ''restype'' (TypeVal DVDNavStatusT),
     SetAttr ''dvdnav_get_next_cache_block'' ''argtypes'' (TupleVal [POINTER DVDNavT, POINTER (POINTER c_uint8), POINTER c_int32, POINTER c_int32]),
     BindFunction ''dvdnav_free_cache_block'' ''_libdvdnav'' ''dvdnav_free_cache_block'',
     SetAttr ''dvdnav_free_cache_block'' ''restype'' (TypeVal DVDNavStatusT),
     SetAttr ''dvdnav_free_cache_block'' ''argtypes'' (TupleVal [POINTER DVDNavT, POINTER c_ubyte]),
     BindFunction ''dvdnav_still_skip'' ''_libdvdnav'' ''dvdnav_still_skip'',
     SetAttr ''dvdnav_still_skip'' ''restype'' (TypeVal DVDNavStatusT),
     SetAttr ''dvdnav_still_skip'' ''argtypes'' (TupleVal [POINTER DVDNavT]),
     BindFunction ''dvdnav_wait_skip'' ''_libdvdnav'' ''dvdnav_wait_skip'']"

definition dvdnav_part4 :: "stmt list" where
  "dvdnav_part4 =
    [SetAttr ''dvdnav_wait_skip'' ''restype'' (TypeVal DVDNavStatusT),
     SetAttr ''dvdnav_wait_skip'' ''argtypes'' (TupleVal [POINTER DVDNavT]),
     BindFunction ''dvdnav_get_next_still_flag'' ''_libdvdnav'' ''dvdnav_get_next_still_flag'',
     SetAttr ''dvdnav_get_next_still_flag'' ''restype'' (TypeVal c_uint32),
     SetAttr ''dvdnav_get_next_still_flag'' ''argtypes'' (TupleVal [POINTER DVDNavT]),
     BindFunction ''dvdnav_stop'' ''_libdvdnav'' ''dvdnav_stop'',
     SetAttr ''dvdnav_stop'' ''restype'' (TypeVal DVDNavStatusT),
     SetAttr ''dvdnav_stop'' ''argtypes'' (TupleVal [POINTER DVDNavT]),
     BindFunction ''dvdnav_get_number_of_titles'' ''_libdvdnav'' ''dvdnav_get_number_of_titles'',
     SetAttr ''dvdnav_get_number_of_titles'' ''restype'' (TypeVal DVDNavStatusT),
     SetAttr ''dvdnav_get_number_of_titles'' ''argtypes'' (TupleVal [POINTER DVDNavT, POINTER c_int32]),
     BindFunction ''dvdnav_get_number_of_parts'' ''_libdvdnav'' ''dvdnav_get_number_of_parts'',
     SetAttr ''dvdnav_get_number_of_parts'' ''restype'' (TypeVal DVDNavStatusT),
     SetAttr ''dvdnav_get_number_of_parts'' ''argtypes'' (TupleVal [POINTER DVDNavT, c_int32, POINTER c_int32]),
     BindFunction ''dvdnav_get_number_of_angles'' ''_libdvdnav'' ''dvdnav_get_number_of_angles'',
     SetAttr ''dvdnav_get_number_of_angles'' ''restype'' (TypeVal DVDNavStatusT),
     SetAttr ''dvdnav_get_number_of_angles'' ''argtypes'' (TupleVal [POINTER DVDNavT, c_int32, POINTER c_int32]),
     BindFunction ''dvdnav_title_play'' ''_libdvdnav'' ''dvdnav_title_play'',
     SetAttr ''dvdnav_title_play'' ''restype'' (TypeVal DVDNavStatusT),
     SetAttr ''dvdnav_title_play'' ''argtypes'' (TupleVal [POINTER DVDNavT, c_int32]),
     BindFunction ''dvdnav_part_play'' ''_libdvdnav'' ''dvdnav_part_play'',
     SetAttr ''dvdnav_part_play'' ''restype'' (TypeVal DVDNavStatusT),
     SetAttr ''dvdnav_part_play'' ''argtypes'' (TupleVal [POINTER DVDNavT, c_int32, c_int32]),
     BindFunction ''dvdnav_program_play'' ''_libdvdnav'' ''dvdnav_program_play'',
     SetAttr ''dvdnav_program_play'' ''restype'' (TypeVal DVDNavStatusT),
     SetAttr ''dvdnav_program_play'' ''argtypes'' (TupleVal [POINTER DVDNavT, c_int32, c_int32, c_int32]),
     BindFunction ''dvdnav_describe_title_chapters'' ''_libdvdnav'' ''dvdnav_describe_title_chapters'',
     SetAttr ''dvdnav_describe_title_chapters'' ''restype'' (TypeVal c_uint32),
     SetAttr ''dvdnav_describe_title_chapters'' ''argtypes'' (TupleVal [POINTER DVDNavT, c_int32, POINTER (POINTER c_uint64), POINTER c_uint64]),
     BindFunction ''dvdnav_part_play_auto_stop'' ''_libdvdnav'' ''dvdnav_part_play_auto_stop'',
     SetAttr ''dvdnav_part_play_auto_stop'' ''restype'' (TypeVal DVDNavStatusT),
     SetAttr ''dvdnav_part_play_auto_stop'' ''argtypes'' (TupleVal [POINTER DVDNavT, c_int32, c_int32, c_int32]),
     BindFunction ''dvdnav_time_play'' ''_libdvdnav'' ''dvdnav_time_play'',
     SetAttr ''dvdnav_time_play'' ''restype'' (TypeVal DVDNavStatusT),
     SetAttr ''dvdnav_time_play'' ''argtypes'' (TupleVal [POINTER DVDNavT, c_int32, c_int64]),
     BindFunction ''dvdnav_menu_call'' ''_libdvdnav'' ''dvdnav_menu_call'',
     SetAttr ''dvdnav_menu_call'' ''restype'' (TypeVal DVDNavStatusT),
     SetAttr ''dvdnav_menu_call'' ''argtypes'' (TupleVal [POINTER DVDNavT, DVDMenuIDT]),
     BindFunction ''dvdnav_current_title_info'' ''_libdvdnav'' ''dvdnav_current_title_info'',
     SetAttr ''dvdnav_current_title_info'' ''restype'' (TypeVal DVDNavStatusT)]"

definition dvdnav_part5 :: "stmt list" where
  "dvdnav_part5 =
    [SetAttr ''dvdnav_current_title_info'' ''argtypes'' (TupleVal [POINTER DVDNavT, POINTER c_int32, POINTER c_int32]),
     BindFunction ''dvdnav_current_title_program'' ''_libdvdnav'' ''dvdnav_current_title_program'',
     SetAttr ''dvdnav_current_title_program'' ''restype'' (TypeVal DVDNavStatusT),
     SetAttr ''dvdnav_current_title_program'' ''argtypes'' (TupleVal [POINTER DVDNavT, POINTER c_int32, POINTER c_int32, POINTER c_int32]),
     BindFunction ''dvdnav_get_position_in_title'' ''_libdvdnav'' ''dvdnav_get_position_in_title'',
     SetAttr ''dvdnav_get_position_in_title'' ''restype'' (TypeVal DVDNavStatusT),
     SetAttr ''dvdnav_get_position_in_title'' ''argtypes'' (TupleVal [POINTER DVDNavT, POINTER c_uint32, POINTER c_uint32]),
     BindFunction ''dvdnav_part_search'' ''_libdvdnav'' ''dvdnav_part_search'',
     SetAttr ''dvdnav_part_search'' ''restype'' (TypeVal DVDNavStatusT),
     SetAttr ''dvdnav_part_search'' ''argtypes'' (TupleVal [POINTER DVDNavT, c_int32]),
     BindFunction ''dvdnav_sector_search'' ''_libdvdnav'' ''dvdnav_sector_search'',
     SetAttr ''dvdnav_sector_search'' ''restype'' (TypeVal DVDNavStatusT),
     SetAttr ''dvdnav_sector_search'' ''argtypes'' (TupleVal [POINTER DVDNavT, c_int64, c_int32]),
     BindFunction ''dvdnav_get_current_time'' ''_libdvdnav'' ''dvdnav_get_current_time'',
     SetAttr ''dvdnav_get_current_time'' ''restype'' (TypeVal c_int64),
     SetAttr ''dvdnav_get_current_time'' ''argtypes'' (TupleVal [POINTER DVDNavT]),
     BindFunction ''dvdnav_time_search'' ''_libdvdnav'' ''dvdnav_time_search'',
     SetAttr ''dvdnav_time_search'' ''restype'' (TypeVal DVDNavStatusT),
     SetAttr ''dvdnav_time_search'' ''argtypes'' (TupleVal [POINTER DVDNavT, c_uint64]),
     BindFunction ''dvdnav_jump_to_sector_by_time'' ''_libdvdnav'' ''dvdnav_jump_to_sector_by_time'',
     SetAttr ''dvdnav_jump_to_sector_by_time'' ''restype'' (TypeVal DVDNavStatusT),
     SetAttr ''dvdnav_jump_to_sector_by_time'' ''argtypes'' (TupleVal [POINTER DVDNavT, c_uint64, c_int32]),
     BindFunction ''dvdnav_go_up'' ''_libdvdnav'' ''dvdnav_go_up'',
     SetAttr ''dvdnav_go_up'' ''restype'' (TypeVal DVDNavStatusT),
     SetAttr ''dvdnav_go_up'' ''argtypes'' (TupleVal [POINTER DVDNavT]),
     BindFunction ''dvdnav_prev_pg_search'' ''_libdvdnav'' ''dvdnav_prev_pg_search'',
     SetAttr ''dvdnav_prev_pg_search'' ''restype'' (TypeVal DVDNavStatusT),
     SetAttr ''dvdnav_prev_pg_search'' ''argtypes'' (TupleVal [POINTER DVDNavT]),
     BindFunction ''dvdnav_top_pg_search'' ''_libdvdnav'' ''dvdnav_top_pg_search'',
     SetAttr ''dvdnav_top_pg_search'' ''restype'' (TypeVal DVDNavStatusT),
     SetAttr ''dvdnav_top_pg_search'' ''argtypes'' (TupleVal [POINTER DVDNavT]),
     BindFunction ''dvdnav_next_pg_search'' ''_libdvdnav'' ''dvdnav_next_pg_search'',
     SetAttr ''dvdnav_next_pg_search'' ''restype'' (TypeVal DVDNavStatusT),
     SetAttr ''dvdnav_next_pg_search'' ''argtypes'' (TupleVal [POINTER DVDNavT]),
     BindFunction ''dvdnav_get_position'' ''_libdvdnav'' ''dvdnav_get_position'',
     SetAttr ''dvdnav_get_position'' ''restype'' (TypeVal DVDNavStatusT),
     SetAttr ''dvdnav_get_position'' ''argtypes'' (TupleVal [POINTER DVDNavT, POINTER c_uint32, POINTER c_uint32]),
     BindFunction ''dvdnav_get_current_highlight'' ''_libdvdnav'' ''dvdnav_get_current_highlight'',
     SetAttr ''dvdnav_get_current_highlight'' ''restype'' (TypeVal DVDNavStatusT),
     SetAttr ''dvdnav_get_current_highlight'' ''argtypes'' (TupleVal [POINTER DVDNavT, POINTER c_int32])]"

definition dvdnav_part6 :: "stmt list" where
  "dvdnav_part6 =
    [BindFunction ''dvdnav_get_current_nav_pci'' ''_libdvdnav'' ''dvdnav_get_current_nav_pci'',
     SetAttr ''dvdnav_get_current_nav_pci'' ''restype'' (TypeVal (POINTER PCIT)),
     SetAttr ''dvdnav_get_current_nav_pci'' ''argtypes'' (TupleVal [POINTER DVDNavT]),
     BindFunction ''dvdnav_get_current_nav_dsi'' ''_libdvdnav'' ''dvdnav_get_current_nav_dsi'',
     SetAttr ''dvdnav_get_current_nav_dsi'' ''restype'' (TypeVal (POINTER DSIT)),
     SetAttr ''dvdnav_get_current_nav_dsi'' ''argtypes'' (TupleVal [POINTER DVDNavT]),
     BindFunction ''dvdnav_get_highlight_area'' ''_libdvdnav'' ''dvdnav_get_highlight_area'',
     SetAttr ''dvdnav_get_highlight_area'' ''restype'' (TypeVal DVDNavStatusT),
     SetAttr ''dvdnav_get_highlight_area'' ''argtypes'' (TupleVal [POINTER PCIT, c_int32, c_int32, POINTER DVDNavHighlightAreaT]),
     BindFunction ''dvdnav_upper_button_select'' ''_libdvdnav'' ''dvdnav_upper_button_select'',
     SetAttr ''dvdnav_upper_button_select'' ''restype'' (TypeVal DVDNavStatusT),
     SetAttr ''dvdnav_upper_button_select'' ''argtypes'' (TupleVal [POINTER DVDNavT, POINTER PCIT]),
     BindFunction ''dvdnav_lower_button_select'' ''_libdvdnav'' ''dvdnav_lower_button_select'',
     SetAttr ''dvdnav_lower_button_select'' ''restype'' (TypeVal DVDNavStatusT),
     SetAttr ''dvdnav_lower_button_select'' ''argtypes'' (TupleVal [POINTER DVDNavT, POINTER PCIT]),
     BindFunction ''dvdnav_right_button_select'' ''_libdvdnav'' ''dvdnav_right_button_select'',
     SetAttr ''dvdnav_right_button_select'' ''restype'' (TypeVal DVDNavStatusT),
     SetAttr ''dvdnav_right_button_select'' ''argtypes'' (TupleVal [POINTER DVDNavT, POINTER PCIT]),
     BindFunction ''dvdnav_left_button_select'' ''_libdvdnav'' ''dvdnav_left_button_select'',
     SetAttr ''dvdnav_left_button_select'' ''restype'' (TypeVal DVDNavStatusT),
     SetAttr ''dvdnav_left_button_select'' ''argtypes'' (TupleVal [POINTER DVDNavT, POINTER PCIT]),
     BindFunction ''dvdnav_button_activate'' ''_libdvdnav'' ''dvdnav_button_activate'',
     SetAttr ''dvdnav_button_activate'' ''restype'' (TypeVal DVDNavStatusT),
     SetAttr ''dvdnav_button_activate'' ''argtypes'' (TupleVal [POINTER DVDNavT, POINTER PCIT]),
     BindFunction ''dvdnav_button_select'' ''_libdvdnav'' ''dvdnav_button_select'',
     SetAttr ''dvdnav_button_select'' ''restype'' (TypeVal DVDNavStatusT),
     SetAttr ''dvdnav_button_select'' ''argtypes'' (TupleVal [POINTER DVDNavT, POINTER PCIT, c_int32]),
     BindFunction ''dvdnav_button_select_and_activate'' ''_libdvdnav'' ''dvdnav_button_select_and_activate'',
     SetAttr ''dvdnav_button_select_and_activate'' ''restype'' (TypeVal DVDNavStatusT),
     SetAttr ''dvdnav_button_select_and_activate'' ''argtypes'' (TupleVal [POINTER DVDNavT, POINTER PCIT, c_int32]),
     BindFunction ''dvdnav_button_activate_cmd'' ''_libdvdnav'' ''dvdnav_button_activate_cmd'',
     SetAttr ''dvdnav_button_activate_cmd'' ''restype'' (TypeVal DVDNavStatusT),
     SetAttr ''dvdnav_button_activate_cmd'' ''argtypes'' (TupleVal [POINTER DVDNavT, c_int32, POINTER VMCmdT]),
     BindFunction ''dvdnav_mouse_select'' ''_libdvdnav'' ''dvdnav_mouse_select'',
     SetAttr ''dvdnav_mouse_select'' ''restype'' (TypeVal DVDNavStatusT),
     SetAttr ''dvdnav_mouse_select'' ''argtypes'' (TupleVal [POINTER DVDNavT, POINTER PCIT, c_int32, c_int32]),
     BindFunction ''dvdnav_mouse_activate'' ''_libdvdnav'' ''dvdnav_mouse_activate'',
     SetAttr ''dvdnav_mouse_activate'' ''restype'' (TypeVal DVDNavStatusT),
     SetAttr ''dvdnav_mouse_activate'' ''argtypes'' (TupleVal [POINTER DVDNavT, POINTER PCIT, c_int32, c_int32]),
     BindFunction ''dvdnav_menu_language_select'' ''_libdvdnav'' ''dvdnav_menu_language_select'']"

definition dvdnav_part7 :: "stmt list" where
  "dvdnav_part7 =
    [SetAttr ''dvdnav_menu_language_select'' ''restype'' (TypeVal DVDNavStatusT),
     SetAttr ''dvdnav_menu_language_select'' ''argtypes'' (TupleVal [POINTER DVDNavT, POINTER c_char]),
     BindFunction ''dvdnav_audio_language_select'' ''_libdvdnav'' ''dvdnav_audio_language_select'',
     SetAttr ''dvdnav_audio_language_select'' ''restype'' (TypeVal DVDNavStatusT),
     SetAttr ''dvdnav_audio_language_select'' ''argtypes'' (TupleVal [POINTER DVDNavT, POINTER c_char]),
     BindFunction ''dvdnav_spu_language_select'' ''_libdvdnav'' ''dvdnav_spu_language_select'',
     SetAttr ''dvdnav_spu_language_select'' ''restype'' (TypeVal DVDNavStatusT),
     SetAttr ''dvdnav_spu_language_select'' ''argtypes'' (TupleVal [POINTER DVDNavT, POINTER c_char]),
     BindFunction ''dvdnav_get_title_string'' ''_libdvdnav'' ''dvdnav_get_title_string'',
     SetAttr ''dvdnav_get_title_string'' ''restype'' (TypeVal DVDNavStatusT),
     SetAttr ''dvdnav_get_title_string'' ''argtypes'' (TupleVal [POINTER DVDNavT, POINTER (POINTER c_char)]),
     BindFunction ''dvdnav_get_serial_string'' ''_libdvdnav'' ''dvdnav_get_serial_string'',
     SetAttr ''dvdnav_get_serial_string'' ''restype'' (TypeVal DVDNavStatusT),
     SetAttr ''dvdnav_get_serial_string'' ''argtypes'' (TupleVal [POINTER DVDNavT, POINTER (POINTER c_char)]),
     BindFunction ''dvdnav_get_video_aspect'' ''_libdvdnav'' ''dvdnav_get_video_aspect'',
     SetAttr ''dvdnav_get_video_aspect'' ''restype'' (TypeVal c_uint8),
     SetAttr ''dvdnav_get_video_aspect'' ''argtypes'' (TupleVal [POINTER DVDNavT]),
     BindFunction ''dvdnav_get_video_resolution'' ''_libdvdnav'' ''dvdnav_get_video_resolution'',
     SetAttr ''dvdnav_get_video_resolution'' ''restype'' (TypeVal DVDNavStatusT),
     SetAttr ''dvdnav_get_video_resolution'' ''argtypes'' (TupleVal [POINTER DVDNavT, POINTER c_uint32, POINTER c_uint32]),
     BindFunction ''dvdnav_get_video_scale_permission'' ''_libdvdnav'' ''dvdnav_get_video_scale_permission'',
     SetAttr ''dvdnav_get_video_scale_permission'' ''restype'' (TypeVal c_uint8),
     SetAttr ''dvdnav_get_video_scale_permission'' ''argtypes'' (TupleVal [POINTER DVDNavT]),
     BindFunction ''dvdnav_audio_stream_to_lang'' ''_libdvdnav'' ''dvdnav_audio_stream_to_lang'',
     SetAttr ''dvdnav_audio_stream_to_lang'' ''restype'' (TypeVal c_uint16),
     SetAttr ''dvdnav_audio_stream_to_lang'' ''argtypes'' (TupleVal [POINTER DVDNavT, c_uint8]),
     BindFunction ''dvdnav_audio_stream_format'' ''_libdvdnav'' ''dvdnav_audio_stream_format'',
     SetAttr ''dvdnav_audio_stream_format'' ''restype'' (TypeVal c_uint16),
     SetAttr ''dvdnav_audio_stream_format'' ''argtypes'' (TupleVal [POINTER DVDNavT, c_uint8]),
     BindFunction ''dvdnav_audio_stream_channels'' ''_libdvdnav'' ''dvdnav_audio_stream_channels'',
     SetAttr ''dvdnav_audio_stream_channels'' ''restype'' (TypeVal c_uint16),
     SetAttr ''dvdnav_audio_stream_channels'' ''argtypes'' (TupleVal [POINTER DVDNavT, c_uint8]),
     BindFunction ''dvdnav_spu_stream_to_lang'' ''_libdvdnav'' ''dvdnav_spu_stream_to_lang'',
     SetAttr ''dvdnav_spu_stream_to_lang'' ''restype'' (TypeVal c_uint16),
     SetAttr ''dvdnav_spu_stream_to_lang'' ''argtypes'' (TupleVal [POINTER DVDNavT, c_uint8]),
     BindFunction ''dvdnav_get_audio_logical_stream'' ''_libdvdnav'' ''dvdnav_get_audio_logical_stream'',
     SetAttr ''dvdnav_get_audio_logical_stream'' ''restype'' (TypeVal c_int8),
     SetAttr ''dvdnav_get_audio_logical_stream'' ''argtypes'' (TupleVal [POINTER DVDNavT, c_uint8]),
     BindFunction ''dvdnav_get_audio_attr'' ''_libdvdnav'' ''dvdnav_get_audio_attr'',
     SetAttr ''dvdnav_get_audio_attr'' ''restype'' (TypeVal DVDNavStatusT)]"

definition dvdnav_part8 :: "stmt list" where
  "dvdnav_part8 =
    [SetAttr ''dvdnav_get_audio_attr'' ''argtypes'' (TupleVal [POINTER DVDNavT, c_uint8, POINTER AudioAttrT]),
     BindFunction ''dvdnav_get_spu_logical_stream'' ''_libdvdnav'' ''dvdnav_get_spu_logical_stream'',
     SetAttr ''dvdnav_get_spu_logical_stream'' ''restype'' (TypeVal c_int8),
     SetAttr ''dvdnav_get_spu_logical_stream'' ''argtypes'' (TupleVal [POINTER DVDNavT, c_uint8]),
     BindFunction ''dvdnav_get_spu_attr'' ''_libdvdnav'' ''dvdnav_get_spu_attr'',
     SetAttr ''dvdnav_get_spu_attr'' ''restype'' (TypeVal DVDNavStatusT),
     SetAttr ''dvdnav_get_spu_attr'' ''argtypes'' (TupleVal [POINTER DVDNavT, c_uint8, POINTER SubPAttrT]),
     BindFunction ''dvdnav_get_active_audio_stream'' ''_libdvdnav'' ''dvdnav_get_active_audio_stream'',
     SetAttr ''dvdnav_get_active_audio_stream'' ''restype'' (TypeVal c_int8),
     SetAttr ''dvdnav_get_active_audio_stream'' ''argtypes'' (TupleVal [POINTER DVDNavT]),
     BindFunction ''dvdnav_get_active_spu_stream'' ''_libdvdnav'' ''dvdnav_get_active_spu_stream'',
     SetAttr ''dvdnav_get_active_spu_stream'' ''restype'' (TypeVal c_int8),
     SetAttr ''dvdnav_get_active_spu_stream'' ''argtypes'' (TupleVal [POINTER DVDNavT]),
     BindFunction ''dvdnav_get_restrictions'' ''_libdvdnav'' ''dvdnav_get_restrictions'',
     SetAttr ''dvdnav_get_restrictions'' ''restype'' (TypeVal UserOpsT),
     SetAttr ''dvdnav_get_restrictions'' ''argtypes'' (TupleVal [POINTER DVDNavT]),
     BindFunction ''dvdnav_angle_change'' ''_libdvdnav'' ''dvdnav_angle_change'',
     SetAttr ''dvdnav_angle_change'' ''restype'' (TypeVal DVDNavStatusT),
     SetAttr ''dvdnav_angle_change'' ''argtypes'' (TupleVal [POINTER DVDNavT, c_uint32]),
     BindFunction ''dvdnav_get_angle_info'' ''_libdvdnav'' ''dvdnav_get_angle_info'',
     SetAttr ''dvdnav_get_angle_info'' ''restype'' (TypeVal DVDNavStatusT),
     SetAttr ''dvdnav_get_angle_info'' ''argstype'' (TupleVal [POINTER DVDNavT, POINTER c_uint32, POINTER c_uint32]),
     BindFunction ''dvdnav_is_domain_fp'' ''_libdvdnav'' ''dvdnav_is_domain_fp'',
     SetAttr ''dvdnav_is_domain_fp'' ''restype'' (TypeVal c_int8),
     SetAttr ''dvdnav_is_domain_fp'' ''argtypes'' (TupleVal [POINTER DVDNavT]),
     BindFunction ''dvdnav_is_domain_vmgm'' ''_libdvdnav'' ''dvdnav_is_domain_vmgm'',
     SetAttr ''dvdnav_is_domain_vmgm'' ''restype'' (TypeVal c_int8),
     SetAttr ''dvdnav_is_domain_vmgm'' ''argtypes'' (TupleVal [POINTER DVDNavT]),
     BindFunction ''dvdnav_is_domain_vtsm'' ''_libdvdnav'' ''dvdnav_is_domain_vtsm'',
     SetAttr ''dvdnav_is_domain_vtsm'' ''restype'' (TypeVal c_int8),
     SetAttr ''dvdnav_is_domain_vtsm'' ''argtypes'' (TupleVal [POINTER DVDNavT]),
     BindFunction ''dvdnav_is_domain_vts'' ''_libdvdnav'' ''dvdnav_is_domain_vts'',
     SetAttr ''dvdnav_is_domain_vts'' ''restype'' (TypeVal c_int8),
     SetAttr ''dvdnav_is_domain_vts'' ''argtypes'' (TupleVal [POINTER DVDNavT]),
     AssignFields ''_VMT'' VMT_fields,
     AssignFields ''_DVDNavS'' DVDNavS_fields,
     ClassStmt ''_DVDNavStillEventT'' Structure (Some DVDNavStillEventT_fields),
     ClassStmt ''_DVDNavSPUStreamChangeEventT'' Structure (Some DVDNavSPUStreamChangeEventT_fields),
     ClassStmt ''_DVDNavAudioStreamChangeEventT'' Structure (Some DVDNavAudioStreamChangeEventT_fields),
     ClassStmt ''_DVDNavVTSChangeEventT'' Structure (Some DVDNavVTSChangeEventT_fields)]"

definition dvdnav_part9 :: "stmt list" where
  "dvdnav_part9 =
    [ClassStmt ''_DVDNavCellChangeEventT'' Structure (Some DVDNavCellChangeEventT_fields),
     ClassStmt ''_DVDNavHighlightEventT'' Structure (Some DVDNavHighlightEventT_fields)]"

text \<open>The statements of \<^verbatim>\<open>dvdnav.py\<close> in source order.\<close>

definition dvdnav_body :: "host \<Rightarrow> stmt list" where
  "dvdnav_body h =
     dvdnav_part1 h
     @ dvdnav_part2
     @ dvdnav_part3
     @ dvdnav_part4
     @ dvdnav_part5
     @ dvdnav_part6
     @ dvdnav_part7
     @ dvdnav_part8
     @ dvdnav_part9"

text \<open>The module first imports \<^verbatim>\<open>dvdread\<close>; an exception raised there propagates.\<close>

definition import_dvdnav :: "host \<Rightarrow> pystate \<Rightarrow> pystate result" where
  "import_dvdnav h st =
     (case import_dvdread h st of Inl e \<Rightarrow> Inl e | Inr st' \<Rightarrow> exec_all h (dvdnav_body h) st')"

section \<open>Properties\<close>

text \<open>
  C2.  The claim that the declared region sizes \<^verbatim>\<open>_PCI_BYTES\<close> and \<^verbatim>\<open>_DSI_BYTES\<close> sum to
  the sector length \<^verbatim>\<open>_DVD_VIDEO_LB_LEN\<close> fails: the two constants are 980 and 1018, their
  sum is 1998, and the sector length is 2048.
\<close>

theorem C2_regions_do_not_fill_sector:
  "PCI_BYTES + DSI_BYTES \<noteq> DVD_VIDEO_LB_LEN"
  by (simp add: PCI_BYTES_def DSI_BYTES_def DVD_VIDEO_LB_LEN_def int_base16_def hex_digit_def)

text \<open>
  C2 (amended).  \<^verbatim>\<open>_PCI_BYTES\<close> is 980 (0x3d4), \<^verbatim>\<open>_DSI_BYTES\<close> is 1018 (0x3fa); together they
  are 1998 bytes, 50 bytes short of the 2048-byte sector.
\<close>

theorem C2_region_sizes:
  "PCI_BYTES = 980 \<and> DSI_BYTES = 1018 \<and> DVD_VIDEO_LB_LEN = 2048
   \<and> PCI_BYTES + DSI_BYTES + 50 = DVD_VIDEO_LB_LEN"
  by (simp add: PCI_BYTES_def DSI_BYTES_def DVD_VIDEO_LB_LEN_def int_base16_def hex_digit_def)

end
